theory Spec2Isabelle
  imports Complex_Main "HOL-Library.Monad_Syntax"
begin

section \<open>JavaScript values used by the controllers\<close>

text \<open>
  Strings are lists of characters (code units restricted to the Latin-1 range), numbers
  are exact rationals (the rounding of IEEE doubles is not modelled), dates are
  milliseconds since the epoch.
\<close>

type_synonym number = rat
type_synonym date = nat

datatype jsval =
    JUndefined
  | JBool bool
  | JNaN
  | JNum number
  | JStr string
  | JDate date
  | JArr "jsval list"
  | JObj "(string \<times> jsval) list"

text \<open>The white space and line terminators of \<^verbatim>\<open>String.prototype.trim\<close> and of \<^verbatim>\<open>\s\<close>.\<close>

definition is_js_space :: "char \<Rightarrow> bool" where
  "is_js_space c = (c \<in> set [CHR 0x09, CHR 0x0A, CHR 0x0B, CHR 0x0C, CHR 0x0D, CHR 0x20, CHR 0xA0])"

definition js_trim :: "string \<Rightarrow> string" where
  "js_trim s = rev (dropWhile is_js_space (rev (dropWhile is_js_space s)))"

text \<open>Truthiness of an optional string: \<^verbatim>\<open>undefined\<close> and \<^verbatim>\<open>''\<close> are falsy.\<close>

fun truthy :: "string option \<Rightarrow> bool" where
  "truthy None = False"
| "truthy (Some s) = (s \<noteq> [])"

subsection \<open>ObjectId\<close>

text \<open>
  An ObjectId is kept in its canonical form, the 24 lower-case hexadecimal digits that
  \<^verbatim>\<open>toString()\<close> and the \<^verbatim>\<open>id\<close> getter return. Mongoose casts a string to an
  ObjectId when it is used as \<^verbatim>\<open>_id\<close> or as a reference: 24 hexadecimal digits of either
  case are accepted, anything else raises a CastError (the 12-byte string form that old
  drivers accept is not modelled).
\<close>

type_synonym objectId = string

definition is_hex :: "char \<Rightarrow> bool" where
  "is_hex c = (c \<in> set ''0123456789abcdefABCDEF'')"

definition is_lower_hex :: "char \<Rightarrow> bool" where
  "is_lower_hex c = (c \<in> set ''0123456789abcdef'')"

definition hex_lower :: "char \<Rightarrow> char" where
  "hex_lower c =
     (if c = CHR ''A'' then CHR ''a'' else if c = CHR ''B'' then CHR ''b''
      else if c = CHR ''C'' then CHR ''c'' else if c = CHR ''D'' then CHR ''d''
      else if c = CHR ''E'' then CHR ''e'' else if c = CHR ''F'' then CHR ''f'' else c)"

definition castObjectId :: "string \<Rightarrow> objectId option" where
  "castObjectId s =
     (if length s = 24 \<and> list_all is_hex s then Some (map hex_lower s) else None)"

definition is_oid :: "string \<Rightarrow> bool" where
  "is_oid s = (length s = 24 \<and> list_all is_lower_hex s)"

subsection \<open>Regular expressions\<close>

text \<open>
  The regular expressions of the sources are anchored at both ends and use character
  classes, sequence, alternative and iteration only, so \<^verbatim>\<open>test\<close> is membership in a
  regular language. \<open>rx_rem r s\<close> lists the suffixes of \<open>s\<close> left after \<open>r\<close> has matched
  a prefix of it; \<open>s\<close> matches when the empty suffix is among them.
\<close>

datatype rx =
    Eps
  | Cls "char \<Rightarrow> bool"
  | Seq rx rx
  | Alt rx rx
  | Star rx

primrec star_rem :: "(string \<Rightarrow> string list) \<Rightarrow> nat \<Rightarrow> string list \<Rightarrow> string list" where
  "star_rem f 0 ts = ts"
| "star_rem f (Suc n) ts = star_rem f n (remdups (ts @ concat (map f ts)))"

primrec rx_rem :: "rx \<Rightarrow> string \<Rightarrow> string list" where
  "rx_rem Eps = (\<lambda>s. [s])"
| "rx_rem (Cls P) = (\<lambda>s. case s of [] \<Rightarrow> [] | c # cs \<Rightarrow> if P c then [cs] else [])"
| "rx_rem (Seq a b) = (\<lambda>s. remdups (concat (map (rx_rem b) (rx_rem a s))))"
| "rx_rem (Alt a b) = (\<lambda>s. remdups (rx_rem a s @ rx_rem b s))"
| "rx_rem (Star a) = (\<lambda>s. star_rem (rx_rem a) (length s) [s])"

definition rx_test :: "rx \<Rightarrow> string \<Rightarrow> bool" where
  "rx_test r s = ([] \<in> set (rx_rem r s))"

definition Plus :: "rx \<Rightarrow> rx" where
  "Plus r = Seq r (Star r)"

definition Opt :: "rx \<Rightarrow> rx" where
  "Opt r = Alt r Eps"

definition Chr :: "char \<Rightarrow> rx" where
  "Chr c = Cls (\<lambda>x. x = c)"

definition is_word_char :: "char \<Rightarrow> bool" where
  "is_word_char c =
     (c \<in> set ''abcdefghijklmnopqrstuvwxyzABCDEFGHIJKLMNOPQRSTUVWXYZ0123456789_'')"

definition is_digit :: "char \<Rightarrow> bool" where
  "is_digit c = (c \<in> set ''0123456789'')"

section \<open>The data model\<close>

subsection \<open>Property (the schema of the Property model)\<close>

datatype inserted_by = Owner | Broker
datatype property_status = ForSale | ForRent | Sold | Rented
datatype property_type = Apartment | House | Commercial | Industrial | Land
datatype approval = Pending | Approved | Rejected

record prop_govDetails =
  khaataNumber :: "string option"
  surveyNumber :: "string option"
  gov_area :: "string option"

record prop_coordinates =
  latitude :: number
  longitude :: number

record prop_location =
  address :: "string option"
  city :: "string option"
  state :: string
  district :: "string option"
  taluka :: "string option"
  village :: "string option"
  zipCode :: "string option"
  coordinates :: prop_coordinates

record prop_image =
  url :: "string option"
  alt :: string
  isPrimary :: bool

record prop_contactInfo =
  contact_name :: string
  contact_email :: string
  contact_phone :: string
  whatsappNumber :: "string option"

text \<open>
  The stored document has exactly the paths the schema declares (plus \<^verbatim>\<open>_id\<close> and the
  two timestamps): the schema is strict, so nothing else is ever written. In particular
  the schema declares no \<^verbatim>\<open>approvedBy\<close>, \<^verbatim>\<open>approvedAt\<close> or \<^verbatim>\<open>rejectionReason\<close>.
\<close>

record property =
  p_id :: objectId
  title :: string
  insertedBy :: inserted_by
  description :: "string option"
  price :: number
  status :: property_status
  ptype :: property_type
  govDetails :: prop_govDetails
  disadvantages :: "string list"
  totalArea :: number
  areaVigha :: "number option"
  areaAcre :: "number option"
  location :: prop_location
  amenities :: "string list"
  images :: "prop_image list"
  contactInfo :: prop_contactInfo
  owner :: objectId
  agent_ref :: "objectId option"
  views :: number
  isFeatured :: bool
  isPublished :: bool
  approvalStatus :: approval
  createdAt :: date
  updatedAt :: date

text \<open>The \<^verbatim>\<open>match\<close> pattern of \<^verbatim>\<open>contactInfo.email\<close>:
  \<^verbatim>\<open>/^\w+([\.-]?\w+)*@\w+([\.-]?\w+)*(\.\w{2,3})+$/\<close>.\<close>

definition contactEmailRegex :: rx where
  "contactEmailRegex =
     (let w = Cls is_word_char;
          dot = Chr (CHR ''.'');
          sep = Cls (\<lambda>c. c = CHR ''.'' \<or> c = CHR ''-'');
          part = Seq (Plus w) (Star (Seq (Opt sep) (Plus w)))
      in Seq part (Seq (Chr (CHR ''@'')) (Seq part (Plus (Seq dot (Seq w (Seq w (Opt w))))))))"

text \<open>The validators the schema attaches to its paths (enum validators are in the types).\<close>

definition validateProperty :: "property \<Rightarrow> bool" where
  "validateProperty p =
     (title p \<noteq> [] \<and> length (title p) \<le> 100
      \<and> (case description p of None \<Rightarrow> True | Some d \<Rightarrow> length d \<le> 2000)
      \<and> 0 \<le> price p
      \<and> 0 \<le> totalArea p
      \<and> (case areaVigha p of None \<Rightarrow> True | Some a \<Rightarrow> 0 \<le> a)
      \<and> (case areaAcre p of None \<Rightarrow> True | Some a \<Rightarrow> 0 \<le> a)
      \<and> state (location p) \<noteq> []
      \<and> contact_name (contactInfo p) \<noteq> []
      \<and> contact_email (contactInfo p) \<noteq> []
      \<and> rx_test contactEmailRegex (contact_email (contactInfo p))
      \<and> contact_phone (contactInfo p) \<noteq> [])"

subsection \<open>Agent (the schema of the Agent model)\<close>

record review =
  r_id :: objectId
  r_user :: objectId
  rating :: number
  comment :: "string option"
  r_createdAt :: date

record agent_ratings =
  average :: number
  count :: nat

text \<open>
  The paths \<^verbatim>\<open>company\<close>, \<^verbatim>\<open>socialMedia\<close>, \<^verbatim>\<open>achievements\<close>, \<^verbatim>\<open>propertiesSold\<close>,
  \<^verbatim>\<open>totalSales\<close> and \<^verbatim>\<open>responseTime\<close> are left out: no modelled handler reads them.
\<close>

record agent =
  a_id :: objectId
  a_user :: objectId
  bio :: "string option"
  specialties :: "string list"
  languages :: "string list"
  experience :: number
  ratings :: agent_ratings
  reviews :: "review list"
  isVerified :: bool
  a_isActive :: bool

definition validateReview :: "review \<Rightarrow> bool" where
  "validateReview r =
     (1 \<le> rating r \<and> rating r \<le> 5
      \<and> (case comment r of None \<Rightarrow> True | Some c \<Rightarrow> length c \<le> 500))"

definition validateAgent :: "agent \<Rightarrow> bool" where
  "validateAgent a =
     ((case bio a of None \<Rightarrow> True | Some b \<Rightarrow> length b \<le> 1000)
      \<and> 0 \<le> experience a
      \<and> 0 \<le> average (ratings a) \<and> average (ratings a) \<le> 5
      \<and> list_all validateReview (reviews a))"

subsection \<open>User\<close>

text \<open>
  Modelled from the spec: the User model (models/User.js) is not among the sources. The
  spec gives a user a name, an email and/or a mobile number, a password hash, a role among
  user, agent and admin, an active flag and a list of favourite properties; the
  controllers store the mobile number under \<^verbatim>\<open>phone\<close>.
\<close>

record user =
  u_id :: objectId
  u_name :: string
  email :: "string option"
  phone :: "string option"
  password :: string
  role :: string
  u_isActive :: bool
  favorites :: "objectId list"

definition validRole :: "string \<Rightarrow> bool" where
  "validRole r = (r = ''user'' \<or> r = ''agent'' \<or> r = ''admin'')"

subsection \<open>The document store\<close>

record db =
  users :: "user list"
  agents :: "agent list"
  properties :: "property list"

datatype error = CastError | ValidationError | DuplicateKey | TypeError | StorageError

text \<open>
  Modelled from the spec: the guard (middleware/auth.js) is not among the sources. It
  verifies the session token, loads the account it names and attaches it to the request;
  the handlers read its \<^verbatim>\<open>id\<close> (the canonical string of the account's \<^verbatim>\<open>_id\<close>) and its
  \<^verbatim>\<open>role\<close>.
\<close>

record req_user =
  user_id :: string
  user_role :: string

section \<open>Model operations (Mongoose)\<close>

definition Property_findById :: "string \<Rightarrow> db \<Rightarrow> error + property option" where
  "Property_findById i d =
     (case castObjectId i of
        None \<Rightarrow> Inl CastError
      | Some oid \<Rightarrow> Inr (find (\<lambda>p. p_id p = oid) (properties d)))"

text \<open>
  A loaded document is an object: assigning to a path of the schema changes the document,
  assigning to any other name creates a plain property of the object, which \<^verbatim>\<open>save\<close>
  does not write and \<^verbatim>\<open>toJSON\<close> does not show.
\<close>

record property_doc =
  doc :: property
  expando :: "(string \<times> jsval) list"

definition load :: "property \<Rightarrow> property_doc" where
  "load p = \<lparr>doc = p, expando = []\<rparr>"

definition set_expando :: "string \<Rightarrow> jsval \<Rightarrow> property_doc \<Rightarrow> property_doc" where
  "set_expando k v d = d\<lparr>expando := (k, v) # filter (\<lambda>kv. fst kv \<noteq> k) (expando d)\<rparr>"

text \<open>
  \<^verbatim>\<open>save\<close> validates the document against the schema, stamps \<^verbatim>\<open>updatedAt\<close> and
  replaces the stored document of the same \<^verbatim>\<open>_id\<close>.
\<close>

definition Property_save :: "date \<Rightarrow> property_doc \<Rightarrow> db \<Rightarrow> error + db" where
  "Property_save now d s =
     (if validateProperty (doc d)
      then Inr (s\<lparr>properties :=
                  map (\<lambda>q. if p_id q = p_id (doc d) then (doc d)\<lparr>updatedAt := now\<rparr> else q)
                      (properties s)\<rparr>)
      else Inl ValidationError)"

subsection \<open>The Agent model's own code\<close>

text \<open>The method \<^verbatim>\<open>calculateAverageRating\<close> of the Agent schema.\<close>

definition calculateAverageRating :: "agent \<Rightarrow> agent" where
  "calculateAverageRating this =
     (if length (reviews this) = 0
      then this\<lparr>ratings := \<lparr>average = 0, count = 0\<rparr>\<rparr>
      else
        let sum = foldl (\<lambda>acc review. acc + rating review) 0 (reviews this)
        in this\<lparr>ratings := \<lparr>average = sum / of_nat (length (reviews this)),
                             count = length (reviews this)\<rparr>\<rparr>)"

text \<open>The ratings are derived: the mean of the review ratings and their number.\<close>

definition derived_ratings :: "agent \<Rightarrow> bool" where
  "derived_ratings a =
     (average (ratings a) =
        (if reviews a = [] then 0
         else sum_list (map rating (reviews a)) / of_nat (length (reviews a)))
      \<and> count (ratings a) = length (reviews a))"

text \<open>
  \<^verbatim>\<open>save\<close> on an agent: the document is validated, then the schema's \<^verbatim>\<open>pre('save')\<close>
  hook runs \<^verbatim>\<open>calculateAverageRating\<close>, then the document is written. A new document
  is appended to the collection, an existing one replaces its stored version.
\<close>

definition Agent_save :: "agent \<Rightarrow> db \<Rightarrow> error + db" where
  "Agent_save a d =
     (if validateAgent a
      then
        let a' = calculateAverageRating a
        in Inr (d\<lparr>agents :=
                  (if list_ex (\<lambda>q. a_id q = a_id a) (agents d)
                   then map (\<lambda>q. if a_id q = a_id a then a' else q) (agents d)
                   else agents d @ [a'])\<rparr>)
      else Inl ValidationError)"

text \<open>
  \<^verbatim>\<open>Agent.create\<close> with the literal object that \<^verbatim>\<open>register\<close> and \<^verbatim>\<open>updateUserRole\<close> pass;
  the schema's defaults fill the rest, and the new \<^verbatim>\<open>_id\<close> is the driver's choice.
\<close>

definition Agent_create_blank :: "objectId \<Rightarrow> objectId \<Rightarrow> db \<Rightarrow> error + db" where
  "Agent_create_blank newId u d =
     Agent_save \<lparr>a_id = newId, a_user = u, bio = Some [], specialties = [], languages = [],
                 experience = 0, ratings = \<lparr>average = 0, count = 0\<rparr>, reviews = [],
                 isVerified = False, a_isActive = True\<rparr> d"

section \<open>Moderation workflow (controllers/admin.js)\<close>

text \<open>A handler returns the HTTP status of its response and the store it leaves.\<close>

definition approveProperty :: "date \<Rightarrow> req_user \<Rightarrow> string \<Rightarrow> db \<Rightarrow> nat \<times> db" where
  "approveProperty now user pid s =
     (case Property_findById pid s of
        Inl e \<Rightarrow> (500, s)
      | Inr None \<Rightarrow> (404, s)
      | Inr (Some p) \<Rightarrow>
          if approvalStatus p = Approved then (400, s)
          else
            let property = load p;
                property = property\<lparr>doc := (doc property)\<lparr>approvalStatus := Approved\<rparr>\<rparr>;
                property = set_expando ''approvedBy'' (JStr (user_id user)) property;
                property = set_expando ''approvedAt'' (JDate now) property;
                property = property\<lparr>doc := (doc property)\<lparr>isPublished := True\<rparr>\<rparr>
            in (case Property_save now property s of
                  Inl e \<Rightarrow> (500, s)
                | Inr s' \<Rightarrow> (200, s')))"

definition rejectProperty ::
  "date \<Rightarrow> req_user \<Rightarrow> string \<Rightarrow> string option \<Rightarrow> db \<Rightarrow> nat \<times> db" where
  "rejectProperty now user pid rejectionReason s =
     (case rejectionReason of
        None \<Rightarrow> (400, s)
      | Some reason \<Rightarrow>
          if reason = [] \<or> length (js_trim reason) = 0 then (400, s)
          else
            (case Property_findById pid s of
               Inl e \<Rightarrow> (500, s)
             | Inr None \<Rightarrow> (404, s)
             | Inr (Some p) \<Rightarrow>
                 if approvalStatus p = Rejected then (400, s)
                 else
                   let property = load p;
                       property = property\<lparr>doc := (doc property)\<lparr>approvalStatus := Rejected\<rparr>\<rparr>;
                       property = set_expando ''approvedBy'' (JStr (user_id user)) property;
                       property = set_expando ''approvedAt'' (JDate now) property;
                       property = set_expando ''rejectionReason'' (JStr reason) property;
                       property = property\<lparr>doc := (doc property)\<lparr>isPublished := False\<rparr>\<rparr>
                   in (case Property_save now property s of
                         Inl e \<Rightarrow> (500, s)
                       | Inr s' \<Rightarrow> (200, s'))))"

section \<open>User administration\<close>

definition User_findById :: "string \<Rightarrow> db \<Rightarrow> error + user option" where
  "User_findById i d =
     (case castObjectId i of
        None \<Rightarrow> Inl CastError
      | Some oid \<Rightarrow> Inr (find (\<lambda>u. u_id u = oid) (users d)))"

text \<open>Removal of the first document that satisfies a condition, if there is one.\<close>

fun delete_first :: "('a \<Rightarrow> bool) \<Rightarrow> 'a list \<Rightarrow> 'a list" where
  "delete_first P [] = []"
| "delete_first P (x # xs) = (if P x then xs else x # delete_first P xs)"

definition User_findByIdAndDelete :: "string \<Rightarrow> db \<Rightarrow> error + db" where
  "User_findByIdAndDelete i d =
     (case castObjectId i of
        None \<Rightarrow> Inl CastError
      | Some oid \<Rightarrow> Inr (d\<lparr>users := delete_first (\<lambda>u. u_id u = oid) (users d)\<rparr>))"

definition Agent_findOne_user :: "string \<Rightarrow> db \<Rightarrow> error + agent option" where
  "Agent_findOne_user i d =
     (case castObjectId i of
        None \<Rightarrow> Inl CastError
      | Some oid \<Rightarrow> Inr (find (\<lambda>a. a_user a = oid) (agents d)))"

definition Agent_findOneAndDelete_user :: "string \<Rightarrow> db \<Rightarrow> error + db" where
  "Agent_findOneAndDelete_user i d =
     (case castObjectId i of
        None \<Rightarrow> Inl CastError
      | Some oid \<Rightarrow> Inr (d\<lparr>agents := delete_first (\<lambda>a. a_user a = oid) (agents d)\<rparr>))"

text \<open>
  \<^verbatim>\<open>User.findByIdAndUpdate(userId, { role }, { new: true, runValidators: true })\<close>: an
  undefined role leaves the update empty; a role outside the enumeration fails validation.
\<close>

definition User_findByIdAndUpdate_role ::
  "string \<Rightarrow> string option \<Rightarrow> db \<Rightarrow> error + (user option \<times> db)" where
  "User_findByIdAndUpdate_role i r d =
     (case castObjectId i of
        None \<Rightarrow> Inl CastError
      | Some oid \<Rightarrow>
          (case r of
             None \<Rightarrow> Inr (find (\<lambda>u. u_id u = oid) (users d), d)
           | Some r' \<Rightarrow>
               if \<not> validRole r' then Inl ValidationError
               else
                 (case find (\<lambda>u. u_id u = oid) (users d) of
                    None \<Rightarrow> Inr (None, d)
                  | Some u \<Rightarrow>
                      Inr (Some (u\<lparr>role := r'\<rparr>),
                           d\<lparr>users := map (\<lambda>v. if u_id v = oid then v\<lparr>role := r'\<rparr> else v)
                                           (users d)\<rparr>))))"

subsection \<open>deleteUser of controllers/admin.js (DELETE /api/admin/users/:id)\<close>

definition admin_deleteUser :: "req_user \<Rightarrow> string \<Rightarrow> db \<Rightarrow> nat \<times> db" where
  "admin_deleteUser req_user param_id s =
     (case User_findById param_id s of
        Inl e \<Rightarrow> (500, s)
      | Inr None \<Rightarrow> (404, s)
      | Inr (Some user) \<Rightarrow>
          if u_id user = user_id req_user then (400, s)
          else
            (case User_findByIdAndDelete param_id s of
               Inl e \<Rightarrow> (500, s)
             | Inr s' \<Rightarrow> (200, s')))"

subsection \<open>The users controller (DELETE /api/users/:id, PUT /api/users/:id/role)\<close>

definition updateUserRole ::
  "objectId \<Rightarrow> req_user \<Rightarrow> string \<Rightarrow> string option \<Rightarrow> db \<Rightarrow> nat \<times> db" where
  "updateUserRole newId req_user userId role_in s =
     (if userId = user_id req_user then (400, s)
      else
        (case User_findByIdAndUpdate_role userId role_in s of
           Inl e \<Rightarrow> (500, s)
         | Inr (None, s1) \<Rightarrow> (404, s1)
         | Inr (Some user, s1) \<Rightarrow>
             if role_in = Some ''agent'' then
               (case Agent_findOne_user userId s1 of
                  Inl e \<Rightarrow> (500, s1)
                | Inr (Some existingAgent) \<Rightarrow> (200, s1)
                | Inr None \<Rightarrow>
                    (case Agent_create_blank newId (u_id user) s1 of
                       Inl e \<Rightarrow> (500, s1)
                     | Inr s2 \<Rightarrow> (200, s2)))
             else (200, s1)))"

definition deleteUser :: "req_user \<Rightarrow> string \<Rightarrow> db \<Rightarrow> nat \<times> db" where
  "deleteUser req_user userId s =
     (if userId = user_id req_user then (400, s)
      else
        (case User_findById userId s of
           Inl e \<Rightarrow> (500, s)
         | Inr None \<Rightarrow> (404, s)
         | Inr (Some user) \<Rightarrow>
             (case Agent_findOneAndDelete_user userId s of
                Inl e \<Rightarrow> (500, s)
              | Inr s1 \<Rightarrow>
                  (case User_findByIdAndDelete userId s1 of
                     Inl e \<Rightarrow> (500, s1)
                   | Inr s2 \<Rightarrow> (200, s2)))))"

section \<open>Agent directory (controllers/agents.js)\<close>

definition Agent_findById :: "string \<Rightarrow> db \<Rightarrow> error + agent option" where
  "Agent_findById i d =
     (case castObjectId i of
        None \<Rightarrow> Inl CastError
      | Some oid \<Rightarrow> Inr (find (\<lambda>a. a_id a = oid) (agents d)))"

text \<open>What depends on the installed Mongoose release rather than on the repository.\<close>

record mongoose_cfg =
  strictQuery :: bool \<comment> \<open>filter keys that are not schema paths are dropped\<close>
  subdocRemove :: bool \<comment> \<open>subdocuments still have the method \<^verbatim>\<open>remove\<close>\<close>

record review_body =
  body_rating :: "number option"
  body_comment :: "string option"

subsection \<open>addAgentReview\<close>

text \<open>
  The pushed object is cast to a review subdocument: its \<^verbatim>\<open>user\<close> is cast to an
  ObjectId, a missing \<^verbatim>\<open>rating\<close> violates \<^verbatim>\<open>required\<close>; either failure surfaces when
  \<^verbatim>\<open>save\<close> validates. \<open>newId\<close> is the \<^verbatim>\<open>_id\<close> the driver gives the subdocument.
\<close>

definition addAgentReview ::
  "date \<Rightarrow> objectId \<Rightarrow> req_user \<Rightarrow> string \<Rightarrow> review_body \<Rightarrow> db \<Rightarrow> nat \<times> db" where
  "addAgentReview now newId req_user param_id body s =
     (case Agent_findById param_id s of
        Inl e \<Rightarrow> (500, s)
      | Inr None \<Rightarrow> (404, s)
      | Inr (Some agent) \<Rightarrow>
          (case find (\<lambda>review. r_user review = user_id req_user) (reviews agent) of
             Some existingReview \<Rightarrow> (400, s)
           | None \<Rightarrow>
               (case (castObjectId (user_id req_user), body_rating body) of
                  (Some u, Some r) \<Rightarrow>
                    let review = \<lparr>r_id = newId, r_user = u, rating = r,
                                  comment = body_comment body, r_createdAt = now\<rparr>;
                        agent = agent\<lparr>reviews := reviews agent @ [review]\<rparr>
                    in (case Agent_save agent s of
                          Inl e \<Rightarrow> (500, s)
                        | Inr s' \<Rightarrow> (201, s'))
                | _ \<Rightarrow> (500, s))))"

subsection \<open>updateAgentReview and deleteAgentReview\<close>

text \<open>\<^verbatim>\<open>agent.reviews.id(reviewId)\<close>: the subdocument with that \<^verbatim>\<open>_id\<close>, or null.\<close>

definition reviews_id :: "string \<Rightarrow> agent \<Rightarrow> review option" where
  "reviews_id i a =
     (case castObjectId i of
        None \<Rightarrow> None
      | Some oid \<Rightarrow> find (\<lambda>r. r_id r = oid) (reviews a))"

definition updateAgentReview ::
  "req_user \<Rightarrow> string \<Rightarrow> string \<Rightarrow> review_body \<Rightarrow> db \<Rightarrow> nat \<times> db" where
  "updateAgentReview req_user param_id reviewId body s =
     (case Agent_findById param_id s of
        Inl e \<Rightarrow> (500, s)
      | Inr None \<Rightarrow> (404, s)
      | Inr (Some agent) \<Rightarrow>
          (case reviews_id reviewId agent of
             None \<Rightarrow> (404, s)
           | Some review \<Rightarrow>
               if r_user review \<noteq> user_id req_user then (403, s)
               else
                 let review = (case body_rating body of
                                 None \<Rightarrow> review
                               | Some r \<Rightarrow> if r \<noteq> 0 then review\<lparr>rating := r\<rparr> else review);
                     review = (if truthy (body_comment body)
                               then review\<lparr>comment := body_comment body\<rparr> else review);
                     agent = agent\<lparr>reviews :=
                               map (\<lambda>r. if r_id r = r_id review then review else r) (reviews agent)\<rparr>
                 in (case Agent_save agent s of
                       Inl e \<Rightarrow> (500, s)
                     | Inr s' \<Rightarrow> (200, s'))))"

definition deleteAgentReview ::
  "mongoose_cfg \<Rightarrow> req_user \<Rightarrow> string \<Rightarrow> string \<Rightarrow> db \<Rightarrow> nat \<times> db" where
  "deleteAgentReview cfg req_user param_id reviewId s =
     (case Agent_findById param_id s of
        Inl e \<Rightarrow> (500, s)
      | Inr None \<Rightarrow> (404, s)
      | Inr (Some agent) \<Rightarrow>
          (case reviews_id reviewId agent of
             None \<Rightarrow> (404, s)
           | Some review \<Rightarrow>
               if r_user review \<noteq> user_id req_user \<and> user_role req_user \<noteq> ''admin''
               then (403, s)
               else if \<not> subdocRemove cfg then (500, s)
               else
                 let agent = agent\<lparr>reviews := filter (\<lambda>r. r_id r \<noteq> r_id review) (reviews agent)\<rparr>
                 in (case Agent_save agent s of
                       Inl e \<Rightarrow> (500, s)
                     | Inr s' \<Rightarrow> (200, s'))))"

subsection \<open>updateAgent\<close>

text \<open>
  The request body is handed to \<^verbatim>\<open>findByIdAndUpdate\<close> as it is. A body is modelled by the
  paths of the agent it names, each already of the type the schema casts it to.
\<close>

record agent_update =
  up_user :: "string option"
  up_bio :: "string option"
  up_specialties :: "string list option"
  up_languages :: "string list option"
  up_experience :: "number option"
  up_ratings :: "agent_ratings option"
  up_reviews :: "review list option"
  up_isVerified :: "bool option"
  up_isActive :: "bool option"

definition apply_agent_update :: "agent_update \<Rightarrow> objectId option \<Rightarrow> agent \<Rightarrow> agent" where
  "apply_agent_update b u a =
     a\<lparr>a_user := (case u of None \<Rightarrow> a_user a | Some v \<Rightarrow> v),
       bio := (case up_bio b of None \<Rightarrow> bio a | Some v \<Rightarrow> Some v),
       specialties := (case up_specialties b of None \<Rightarrow> specialties a | Some v \<Rightarrow> v),
       languages := (case up_languages b of None \<Rightarrow> languages a | Some v \<Rightarrow> v),
       experience := (case up_experience b of None \<Rightarrow> experience a | Some v \<Rightarrow> v),
       ratings := (case up_ratings b of None \<Rightarrow> ratings a | Some v \<Rightarrow> v),
       reviews := (case up_reviews b of None \<Rightarrow> reviews a | Some v \<Rightarrow> v),
       isVerified := (case up_isVerified b of None \<Rightarrow> isVerified a | Some v \<Rightarrow> v),
       a_isActive := (case up_isActive b of None \<Rightarrow> a_isActive a | Some v \<Rightarrow> v)\<rparr>"

text \<open>The update validators (\<^verbatim>\<open>runValidators: true\<close>) check the paths the update names.\<close>

definition validate_agent_update :: "agent_update \<Rightarrow> bool" where
  "validate_agent_update b =
     ((case up_bio b of None \<Rightarrow> True | Some v \<Rightarrow> length v \<le> 1000)
      \<and> (case up_experience b of None \<Rightarrow> True | Some v \<Rightarrow> 0 \<le> v)
      \<and> (case up_ratings b of None \<Rightarrow> True | Some v \<Rightarrow> 0 \<le> average v \<and> average v \<le> 5)
      \<and> (case up_reviews b of None \<Rightarrow> True | Some v \<Rightarrow> list_all validateReview v))"

text \<open>
  \<^verbatim>\<open>Agent.findByIdAndUpdate(id, body, { new: true, runValidators: true })\<close> writes the
  named paths in the store; it is a query, so the \<^verbatim>\<open>pre('save')\<close> hook of the schema does
  not run.
\<close>

definition Agent_findByIdAndUpdate ::
  "string \<Rightarrow> agent_update \<Rightarrow> db \<Rightarrow> error + (agent option \<times> db)" where
  "Agent_findByIdAndUpdate i b d =
     (case castObjectId i of
        None \<Rightarrow> Inl CastError
      | Some oid \<Rightarrow>
          (case (case up_user b of None \<Rightarrow> Some None
                 | Some v \<Rightarrow> map_option Some (castObjectId v)) of
             None \<Rightarrow> Inl CastError
           | Some u \<Rightarrow>
               if \<not> validate_agent_update b then Inl ValidationError
               else
                 (case find (\<lambda>a. a_id a = oid) (agents d) of
                    None \<Rightarrow> Inr (None, d)
                  | Some a \<Rightarrow>
                      Inr (Some (apply_agent_update b u a),
                           d\<lparr>agents := map (\<lambda>q. if a_id q = oid then apply_agent_update b u q else q)
                                            (agents d)\<rparr>))))"

text \<open>\<^verbatim>\<open>User.findByIdAndUpdate(id, { role: 'agent' })\<close>, by ObjectId.\<close>

definition User_setRole :: "objectId \<Rightarrow> string \<Rightarrow> db \<Rightarrow> db" where
  "User_setRole oid r d =
     d\<lparr>users := map (\<lambda>v. if u_id v = oid then v\<lparr>role := r\<rparr> else v) (users d)\<rparr>"

definition updateAgent :: "req_user \<Rightarrow> string \<Rightarrow> agent_update \<Rightarrow> db \<Rightarrow> nat \<times> db" where
  "updateAgent req_user param_id body s =
     (case Agent_findById param_id s of
        Inl e \<Rightarrow> (500, s)
      | Inr None \<Rightarrow> (404, s)
      | Inr (Some agent) \<Rightarrow>
          if a_user agent \<noteq> user_id req_user \<and> user_role req_user \<noteq> ''admin'' then (403, s)
          else
            let wasVerified = isVerified agent
            in (case Agent_findByIdAndUpdate param_id body s of
                  Inl e \<Rightarrow> (500, s)
                | Inr (None, s1) \<Rightarrow> (200, s1)
                | Inr (Some agent, s1) \<Rightarrow>
                    if \<not> wasVerified \<and> isVerified agent
                    then (200, User_setRole (a_user agent) ''agent'' s1)
                    else (200, s1)))"

section \<open>Registration (the auth controller)\<close>

text \<open>\<^verbatim>\<open>/^[^\s@]+@[^\s@]+\.[^\s@]+$/\<close> and \<^verbatim>\<open>/^\d{10}$/\<close>.\<close>

definition emailRegex :: rx where
  "emailRegex =
     (let c = Cls (\<lambda>x. \<not> is_js_space x \<and> x \<noteq> CHR ''@'')
      in Seq (Plus c) (Seq (Chr (CHR ''@'')) (Seq (Plus c) (Seq (Chr (CHR ''.'')) (Plus c)))))"

definition mobileRegex :: rx where
  "mobileRegex =
     (let d = Cls is_digit
      in Seq d (Seq d (Seq d (Seq d (Seq d (Seq d (Seq d (Seq d (Seq d d)))))))))"

record register_body =
  reg_name :: "string option"
  reg_email :: "string option"
  reg_mobile :: "string option"
  reg_password :: "string option"
  reg_role :: "string option"

record user_data =
  ud_name :: "string option"
  ud_password :: "string option"
  ud_role :: string
  ud_email :: "string option"
  ud_phone :: "string option"

definition User_findOne_email :: "string \<Rightarrow> db \<Rightarrow> user option" where
  "User_findOne_email e d = find (\<lambda>u. email u = Some e) (users d)"

definition User_findOne_phone :: "string \<Rightarrow> db \<Rightarrow> user option" where
  "User_findOne_phone m d = find (\<lambda>u. phone u = Some m) (users d)"

text \<open>
  \<open>User_create\<close> stands for \<^verbatim>\<open>User.create\<close>: the schema that decides what it accepts
  (required paths, unique indexes, the password hook) is not among the sources, so it is
  a parameter. It returns the document it stored, or fails.
\<close>

definition register ::
  "(user_data \<Rightarrow> user list \<Rightarrow> error + user) \<Rightarrow> objectId \<Rightarrow> register_body \<Rightarrow> db \<Rightarrow> nat \<times> db"
  where
  "register User_create newId body s =
     (if truthy (reg_email body) \<and> \<not> rx_test emailRegex (the (reg_email body)) then (400, s)
      else if truthy (reg_mobile body) \<and> \<not> rx_test mobileRegex (the (reg_mobile body))
      then (400, s)
      else
        let existingUser =
              (if truthy (reg_email body) then User_findOne_email (the (reg_email body)) s
               else if truthy (reg_mobile body) then User_findOne_phone (the (reg_mobile body)) s
               else None)
        in if existingUser \<noteq> None then (400, s)
           else
             let userData =
                   \<lparr>ud_name = reg_name body, ud_password = reg_password body,
                    ud_role = (if truthy (reg_role body) then the (reg_role body) else ''user''),
                    ud_email = (if truthy (reg_email body) then reg_email body else None),
                    ud_phone = (if truthy (reg_mobile body) then reg_mobile body else None)\<rparr>
             in (case User_create userData (users s) of
                   Inl e \<Rightarrow> (500, s)
                 | Inr user \<Rightarrow>
                     let s1 = s\<lparr>users := users s @ [user]\<rparr>
                     in if reg_role body = Some ''agent'' then
                          (case Agent_create_blank newId (u_id user) s1 of
                             Inl e \<Rightarrow> (500, s1)
                           | Inr s2 \<Rightarrow> (201, s2))
                        else (201, s1)))"

section \<open>Property catalogue (controllers/properties.js)\<close>

subsection \<open>parseInt and pagination\<close>

definition digit_of :: "nat \<Rightarrow> char \<Rightarrow> nat option" where
  "digit_of radix c =
     (let v = (if is_digit c then Some (of_char c - 48)
               else if c \<in> set ''abcdef'' then Some (of_char c - 87)
               else if c \<in> set ''ABCDEF'' then Some (of_char c - 55)
               else None)
      in case v of None \<Rightarrow> None | Some n \<Rightarrow> if n < radix then Some n else None)"

text \<open>\<^verbatim>\<open>parseInt(string)\<close>; \<open>None\<close> is NaN. An absent parameter reads as NaN too.\<close>

definition parseInt :: "string \<Rightarrow> int option" where
  "parseInt str =
     (let s1 = dropWhile is_js_space str;
          sign = (case s1 of c # r \<Rightarrow> if c = CHR ''-'' then - 1 else 1 | [] \<Rightarrow> (1::int));
          s2 = (case s1 of c # r \<Rightarrow> if c = CHR ''-'' \<or> c = CHR ''+'' then r else s1 | [] \<Rightarrow> s1);
          hex = (case s2 of a # b # r \<Rightarrow> a = CHR ''0'' \<and> (b = CHR ''x'' \<or> b = CHR ''X'') | _ \<Rightarrow> False);
          radix = (if hex then 16 else 10);
          s3 = (if hex then drop 2 s2 else s2);
          ds = takeWhile (\<lambda>c. digit_of radix c \<noteq> None) s3
      in if ds = [] then None
         else Some (sign * int (foldl (\<lambda>acc c. acc * radix + the (digit_of radix c)) 0 ds)))"

text \<open>\<^verbatim>\<open>parseInt(req.query.x) || dflt\<close>: NaN and 0 are falsy.\<close>

definition parseInt_or :: "string option \<Rightarrow> int \<Rightarrow> int" where
  "parseInt_or x dflt =
     (case x of
        None \<Rightarrow> dflt
      | Some str \<Rightarrow> (case parseInt str of None \<Rightarrow> dflt | Some n \<Rightarrow> if n = 0 then dflt else n))"

text \<open>
  \<^verbatim>\<open>.skip(skip).limit(limit)\<close>: the server rejects a negative skip; a negative limit is
  read as its absolute value.
\<close>

definition skip_limit :: "int \<Rightarrow> int \<Rightarrow> 'a list \<Rightarrow> error + 'a list" where
  "skip_limit skip limit xs =
     (if skip < 0 then Inl StorageError else Inr (take (nat \<bar>limit\<bar>) (drop (nat skip) xs)))"

subsection \<open>searchProperties\<close>

text \<open>
  The text index is the storage engine's: \<open>accepts\<close> tells whether the server takes the
  search string, \<open>score\<close> gives the relevance of a document that matches it.
\<close>

record text_engine =
  accepts :: "string \<Rightarrow> bool"
  score :: "string \<Rightarrow> property \<Rightarrow> number option"

record search_query =
  sq_q :: "string option"
  sq_page :: "string option"
  sq_limit :: "string option"

text \<open>A listing answers with its status, the page of documents and the total count.\<close>

definition searchProperties ::
  "text_engine \<Rightarrow> search_query \<Rightarrow> db \<Rightarrow> nat \<times> property list \<times> nat" where
  "searchProperties eng query s =
     (let q = sq_q query;
          page = parseInt_or (sq_page query) 1;
          limit = parseInt_or (sq_limit query) 10;
          skip = (page - 1) * limit
      in case q of
           None \<Rightarrow> (500, [], 0)
         | Some q \<Rightarrow>
             if \<not> accepts eng q then (500, [], 0)
             else
               let found = filter (\<lambda>p. score eng q p \<noteq> None \<and> isPublished p) (properties s);
                   sorted = rev (sort_key (\<lambda>p. the (score eng q p)) found)
               in (case skip_limit skip limit sorted of
                     Inl e \<Rightarrow> (500, [], 0)
                   | Inr items \<Rightarrow> (200, items, length found)))"

subsection \<open>getProperties\<close>

text \<open>
  Library functions that are not modelled: \<^verbatim>\<open>parseFloat\<close> (\<open>None\<close> is NaN) and the
  construction of a case-insensitive \<^verbatim>\<open>RegExp\<close> from a pattern (\<open>None\<close> is a
  SyntaxError), which gives the test it performs.
\<close>

record js_lib =
  parseFloat :: "string \<Rightarrow> number option"
  regExp_i :: "string \<Rightarrow> (string \<Rightarrow> bool) option"

record list_query =
  q_page :: "string option"
  q_limit :: "string option"
  minPrice :: "string option"
  maxPrice :: "string option"
  propertyType :: "string option"
  q_status :: "string option"
  q_city :: "string option"
  q_district :: "string option"
  q_village :: "string option"
  bedrooms :: "string option"
  bathrooms :: "string option"
  minArea :: "string option"
  maxArea :: "string option"
  q_sort :: "string option"

definition status_name :: "property_status \<Rightarrow> string" where
  "status_name x =
     (case x of ForSale \<Rightarrow> ''for-sale'' | ForRent \<Rightarrow> ''for-rent'' | Sold \<Rightarrow> ''sold''
      | Rented \<Rightarrow> ''rented'')"

text \<open>One bound of a range: absent when the parameter is falsy, a CastError when it is NaN.\<close>

definition num_bound :: "js_lib \<Rightarrow> string option \<Rightarrow> error + number option" where
  "num_bound lib x =
     (if truthy x
      then (case parseFloat lib (the x) of None \<Rightarrow> Inl CastError | Some v \<Rightarrow> Inr (Some v))
      else Inr None)"

definition in_range :: "number option \<Rightarrow> number option \<Rightarrow> number \<Rightarrow> bool" where
  "in_range lo hi v =
     ((case lo of None \<Rightarrow> True | Some l \<Rightarrow> l \<le> v) \<and> (case hi of None \<Rightarrow> True | Some h \<Rightarrow> v \<le> h))"

text \<open>A regular expression on an optional string path matches only where the path is set.\<close>

definition regex_key ::
  "js_lib \<Rightarrow> string option \<Rightarrow> (property \<Rightarrow> string option) \<Rightarrow> error + (property \<Rightarrow> bool) list"
  where
  "regex_key lib x path =
     (if truthy x
      then (case regExp_i lib (the x) of
              None \<Rightarrow> Inl TypeError
            | Some t \<Rightarrow> Inr [\<lambda>p. case path p of None \<Rightarrow> False | Some v \<Rightarrow> t v])
      else Inr [])"

text \<open>
  A key that is no path of the schema (\<^verbatim>\<open>propertyType\<close>, \<^verbatim>\<open>specifications.*\<close>): dropped
  under \<^verbatim>\<open>strictQuery\<close>, otherwise sent to the server, where no stored document has it.
\<close>

definition nonschema_key :: "mongoose_cfg \<Rightarrow> bool \<Rightarrow> (property \<Rightarrow> bool) list" where
  "nonschema_key cfg present =
     (if present then (if strictQuery cfg then [] else [\<lambda>p. False]) else [])"

text \<open>
  The filter object, as the list of its keys' conditions (a document matches when it
  satisfies all of them). The first key is the \<^verbatim>\<open>$or\<close> the object is created with.
\<close>

definition getProperties_filter ::
  "js_lib \<Rightarrow> mongoose_cfg \<Rightarrow> list_query \<Rightarrow> error + (property \<Rightarrow> bool) list" where
  "getProperties_filter lib cfg query =
     (let filter0 = [\<lambda>p. isPublished p = True \<or> approvalStatus p = Approved]
      in case (if truthy (minPrice query) \<or> truthy (maxPrice query)
               then (case num_bound lib (minPrice query) of
                       Inl e \<Rightarrow> Inl e
                     | Inr lo \<Rightarrow>
                         (case num_bound lib (maxPrice query) of
                            Inl e \<Rightarrow> Inl e
                          | Inr hi \<Rightarrow> Inr [\<lambda>p. in_range lo hi (price p)]))
               else Inr []) of
           Inl e \<Rightarrow> Inl e
         | Inr price_key \<Rightarrow>
        (case regex_key lib (q_city query) (\<lambda>p. city (location p)) of
           Inl e \<Rightarrow> Inl e
         | Inr city_key \<Rightarrow>
        (case regex_key lib (q_district query) (\<lambda>p. district (location p)) of
           Inl e \<Rightarrow> Inl e
         | Inr district_key \<Rightarrow>
        (case regex_key lib (q_village query) (\<lambda>p. village (location p)) of
           Inl e \<Rightarrow> Inl e
         | Inr village_key \<Rightarrow>
             Inr (filter0 @ price_key
                  @ nonschema_key cfg (truthy (propertyType query))
                  @ (if truthy (q_status query)
                     then [\<lambda>p. status_name (status p) = the (q_status query)] else [])
                  @ city_key @ district_key @ village_key
                  @ nonschema_key cfg (truthy (bedrooms query))
                  @ nonschema_key cfg (truthy (bathrooms query))
                  @ nonschema_key cfg (truthy (minArea query) \<or> truthy (maxArea query)))))))"

text \<open>
  The sort object. Equal keys keep the collection's order here (the server promises no
  order among them); \<^verbatim>\<open>specifications.area\<close> is no path of any stored document, so
  sorting on it compares nothing.
\<close>

definition getProperties_sort :: "string option \<Rightarrow> property list \<Rightarrow> property list" where
  "getProperties_sort x ps =
     (if x = Some ''price-asc'' then sort_key price ps
      else if x = Some ''price-desc'' then rev (sort_key price ps)
      else if x = Some ''newest'' then rev (sort_key createdAt ps)
      else if x = Some ''oldest'' then sort_key createdAt ps
      else if x = Some ''area-asc'' then ps
      else if x = Some ''area-desc'' then ps
      else rev (sort_key createdAt ps))"

definition getProperties ::
  "js_lib \<Rightarrow> mongoose_cfg \<Rightarrow> list_query \<Rightarrow> db \<Rightarrow> nat \<times> property list \<times> nat" where
  "getProperties lib cfg query s =
     (let page = parseInt_or (q_page query) 1;
          limit = parseInt_or (q_limit query) 10;
          skip = (page - 1) * limit
      in case getProperties_filter lib cfg query of
           Inl e \<Rightarrow> (500, [], 0)
         | Inr flt \<Rightarrow>
             let found = filter (\<lambda>p. list_all (\<lambda>c. c p) flt) (properties s)
             in (case skip_limit skip limit (getProperties_sort (q_sort query) found) of
                   Inl e \<Rightarrow> (500, [], 0)
                 | Inr items \<Rightarrow> (200, items, length found)))"

text \<open>A request without any of the filter parameters.\<close>

definition unfiltered :: "list_query \<Rightarrow> bool" where
  "unfiltered query =
     (\<not> truthy (minPrice query) \<and> \<not> truthy (maxPrice query) \<and> \<not> truthy (propertyType query)
      \<and> \<not> truthy (q_status query) \<and> \<not> truthy (q_city query) \<and> \<not> truthy (q_district query)
      \<and> \<not> truthy (q_village query) \<and> \<not> truthy (bedrooms query) \<and> \<not> truthy (bathrooms query)
      \<and> \<not> truthy (minArea query) \<and> \<not> truthy (maxArea query))"

text \<open>The decimal numeral of a page number, as a client writes it into the query string.\<close>

definition digit_char :: "nat \<Rightarrow> char" where
  "digit_char d = ''0123456789'' ! d"

fun decimal :: "nat \<Rightarrow> string" where
  "decimal n = (if n < 10 then [digit_char n] else decimal (n div 10) @ [digit_char (n mod 10)])"

subsection \<open>createProperty\<close>

text \<open>
  The text fields of the submitted form are strings; \<^verbatim>\<open>{ ...req.body }\<close> copies them
  into an object that the handler then edits key by key.
\<close>

type_synonym form = "string \<rightharpoonup> string"
type_synonym js_object = "string \<rightharpoonup> jsval"

definition get :: "js_object \<Rightarrow> string \<Rightarrow> jsval" where
  "get obj k = (case obj k of None \<Rightarrow> JUndefined | Some v \<Rightarrow> v)"

definition js_truthy :: "jsval \<Rightarrow> bool" where
  "js_truthy v =
     (case v of JUndefined \<Rightarrow> False | JBool b \<Rightarrow> b | JNaN \<Rightarrow> False | JNum n \<Rightarrow> n \<noteq> 0
      | JStr str \<Rightarrow> str \<noteq> [] | _ \<Rightarrow> True)"

definition js_or :: "jsval \<Rightarrow> jsval \<Rightarrow> jsval" where
  "js_or a b = (if js_truthy a then a else b)"

text \<open>The string a form field contributes to a template literal.\<close>

definition js_text :: "jsval \<Rightarrow> string" where
  "js_text v = (case v of JStr str \<Rightarrow> str | _ \<Rightarrow> [])"

definition field :: "jsval \<Rightarrow> string \<Rightarrow> jsval" where
  "field v k = (case v of JObj fs \<Rightarrow> (case map_of fs k of None \<Rightarrow> JUndefined | Some x \<Rightarrow> x)
                | _ \<Rightarrow> JUndefined)"

record upload =
  path :: string
  originalname :: string

record upload_files =
  f_images :: "upload list"
  f_document712 :: "upload list"
  f_document8A :: "upload list"
  f_documentUtarotar :: "upload list"
  f_otherDocuments :: "upload list"

text \<open>
  Further library functions that are not modelled: \<^verbatim>\<open>JSON.parse\<close> (\<open>None\<close> when it
  throws), the conversion of a string to a number that Mongoose applies to a Number path
  (\<open>None\<close> is NaN), its cast of a value to an array of trimmed strings and its cast of
  a string to a date (\<open>None\<close> is a CastError).
\<close>

record form_lib = js_lib +
  JSON_parse :: "string \<Rightarrow> jsval option"
  toNumber :: "string \<Rightarrow> number option"
  castStringArray :: "jsval \<Rightarrow> string list option"
  toDate :: "string \<Rightarrow> date option"

definition js_parseFloat :: "'a js_lib_scheme \<Rightarrow> jsval \<Rightarrow> jsval" where
  "js_parseFloat lib v =
     (case v of JStr str \<Rightarrow> (case parseFloat lib str of None \<Rightarrow> JNaN | Some n \<Rightarrow> JNum n)
      | JNum n \<Rightarrow> JNum n
      | _ \<Rightarrow> JNaN)"

text \<open>\<^verbatim>\<open>parseInt(x, 10)\<close> on a form field.\<close>

definition js_parseInt10 :: "jsval \<Rightarrow> jsval" where
  "js_parseInt10 v =
     (case v of
        JStr str \<Rightarrow>
          (let s1 = dropWhile is_js_space str;
               sign = (case s1 of c # r \<Rightarrow> if c = CHR ''-'' then - 1 else 1 | [] \<Rightarrow> (1::int));
               s2 = (case s1 of c # r \<Rightarrow> if c = CHR ''-'' \<or> c = CHR ''+'' then r else s1
                     | [] \<Rightarrow> s1);
               ds = takeWhile is_digit s2
           in if ds = [] then JNaN
              else JNum (of_int (sign * int (foldl (\<lambda>acc c. acc * 10 + the (digit_of 10 c)) 0 ds))))
      | _ \<Rightarrow> JNaN)"

fun image_objects :: "upload list \<Rightarrow> jsval list" where
  "image_objects [] = []"
| "image_objects (f # fs) =
     JObj [(''url'', JStr (path f)), (''alt'', JStr (originalname f)), (''isPrimary'', JBool True)]
     # map (\<lambda>g. JObj [(''url'', JStr (path g)), (''alt'', JStr (originalname g)),
                      (''isPrimary'', JBool False)]) fs"

definition document_objects :: "upload_files \<Rightarrow> jsval" where
  "document_objects f =
     JObj ((if length (f_document712 f) > 0
            then [(''document712'', JStr (path (hd (f_document712 f))))] else [])
           @ (if length (f_document8A f) > 0
              then [(''document8A'', JStr (path (hd (f_document8A f))))] else [])
           @ (if length (f_documentUtarotar f) > 0
              then [(''documentUtarotar'', JStr (path (hd (f_documentUtarotar f))))] else [])
           @ (if length (f_otherDocuments f) > 0
              then [(''otherDocuments'', JArr (map (\<lambda>g. JStr (path g)) (f_otherDocuments f)))]
              else []))"

text \<open>
  The handler edits the object block by block; each block is a function on the object,
  named after the comment that heads it in the source.
\<close>

definition handle_uploaded_images :: "upload_files option \<Rightarrow> js_object \<Rightarrow> js_object" where
  "handle_uploaded_images files pd =
     pd(''images'' \<mapsto>
          (case files of
             Some f \<Rightarrow> if length (f_images f) > 0 then JArr (image_objects (f_images f))
                       else JArr []
           | None \<Rightarrow> JArr []))"

definition handle_document_uploads :: "upload_files option \<Rightarrow> js_object \<Rightarrow> js_object" where
  "handle_document_uploads files pd =
     pd(''documents'' \<mapsto> (case files of Some f \<Rightarrow> document_objects f | None \<Rightarrow> JObj []))"

definition handle_land_information :: "form_lib \<Rightarrow> js_object \<Rightarrow> js_object" where
  "handle_land_information lib pd =
     (if get pd ''type'' = JStr ''land''
      then pd(''landInfo'' \<mapsto> JObj
             [(''fencing'', get pd ''fencing''),
              (''borewell'', get pd ''borewell''),
              (''houseOnLand'', get pd ''houseOnLand''),
              (''electricity'', get pd ''electricity''),
              (''expectedPricePerUnit'',
                 if js_truthy (get pd ''expectedPricePerUnit'')
                 then js_parseFloat lib (get pd ''expectedPricePerUnit'') else JUndefined),
              (''paymentTerms'', get pd ''paymentTerms''),
              (''legacyLand'', get pd ''legacyLand'')])
      else pd)"

definition handle_contact_information :: "js_object \<Rightarrow> js_object" where
  "handle_contact_information pd =
     pd(''contactInfo'' \<mapsto> JObj
          [(''name'', get pd ''contactName''),
           (''email'', get pd ''contactEmail''),
           (''phone'', get pd ''contactPhone''),
           (''whatsappNumber'', get pd ''whatsappNumber''),
           (''preferredContact'', get pd ''preferredContact'')])"

definition handle_location :: "form_lib \<Rightarrow> js_object \<Rightarrow> js_object" where
  "handle_location lib pd =
     pd(''location'' \<mapsto> JObj
          [(''address'',
              js_or (get pd ''address'')
                (JStr (js_text (js_or (get pd ''village'') (JStr [])) @ '', ''
                       @ js_text (js_or (get pd ''taluka'') (JStr [])) @ '', ''
                       @ js_text (js_or (get pd ''district'') (JStr [])) @ '', ''
                       @ js_text (js_or (get pd ''state'') (JStr []))))),
           (''city'',
              js_or (get pd ''city'')
                (js_or (get pd ''taluka'') (js_or (get pd ''district'') (JStr [])))),
           (''state'', get pd ''state''),
           (''district'', get pd ''district''),
           (''taluka'', get pd ''taluka''),
           (''village'', get pd ''village''),
           (''zipCode'', js_or (get pd ''zipCode'') (js_or (get pd ''pincode'') (JStr []))),
           (''country'', js_or (get pd ''country'') (JStr ''India'')),
           (''coordinates'', JObj
              [(''latitude'', js_or (js_parseFloat lib (get pd ''latitude'')) (JNum 0)),
               (''longitude'', js_or (js_parseFloat lib (get pd ''longitude'')) (JNum 0))])])"

definition handle_amenities :: "form_lib \<Rightarrow> js_object \<Rightarrow> js_object" where
  "handle_amenities lib pd =
     (if js_truthy (get pd ''amenities'')
      then (case JSON_parse lib (js_text (get pd ''amenities'')) of
              Some v \<Rightarrow> pd(''amenities'' \<mapsto> v)
            | None \<Rightarrow> pd(''amenities'' \<mapsto> JArr []))
      else pd(''amenities'' \<mapsto> JArr []))"

definition handle_disadvantages :: "form_lib \<Rightarrow> js_object \<Rightarrow> js_object" where
  "handle_disadvantages lib pd =
     (if js_truthy (get pd ''disadvantages'')
      then (case get pd ''disadvantages'' of
              JStr d \<Rightarrow>
                if take 1 (js_trim d) = ''[''
                then (case JSON_parse lib d of
                        Some v \<Rightarrow> pd(''disadvantages'' \<mapsto> v)
                      | None \<Rightarrow> pd(''disadvantages'' \<mapsto> JArr []))
                else pd(''disadvantages'' \<mapsto> JArr [JStr d])
            | _ \<Rightarrow> pd)
      else pd(''disadvantages'' \<mapsto> JArr []))"

definition handle_government_details :: "js_object \<Rightarrow> js_object" where
  "handle_government_details pd =
     pd(''govDetails'' \<mapsto> JObj
          [(''khaataNumber'', get pd ''khaataNumber''),
           (''surveyNumber'', get pd ''surveyNumber''),
           (''area'', get pd ''govArea'')])"

definition handle_insertedBy :: "js_object \<Rightarrow> js_object" where
  "handle_insertedBy pd = pd(''insertedBy'' \<mapsto> js_or (get pd ''insertedBy'') (JStr ''Owner''))"

definition set_owner :: "req_user \<Rightarrow> js_object \<Rightarrow> js_object" where
  "set_owner user pd = pd(''owner'' \<mapsto> JStr (user_id user))"

definition link_agent_profile :: "req_user \<Rightarrow> db \<Rightarrow> js_object \<Rightarrow> error + js_object" where
  "link_agent_profile user s pd =
     (if user_role user = ''agent''
      then (case Agent_findOne_user (user_id user) s of
              Inl e \<Rightarrow> Inl e
            | Inr None \<Rightarrow> Inr pd
            | Inr (Some agentProfile) \<Rightarrow> Inr (pd(''agent'' \<mapsto> JStr (a_id agentProfile))))
      else Inr pd)"

definition set_default_values :: "js_object \<Rightarrow> js_object" where
  "set_default_values pd =
     pd(''isPublished'' \<mapsto> JBool False,
        ''isActive'' \<mapsto> JBool True,
        ''approvalStatus'' \<mapsto> JStr ''pending'')"

definition normalize_numeric :: "js_object \<Rightarrow> js_object" where
  "normalize_numeric pd =
     (let pd = (if get pd ''bathrooms'' \<noteq> JUndefined \<and> get pd ''bathrooms'' \<noteq> JStr []
                then pd(''bathrooms'' \<mapsto> js_parseInt10 (get pd ''bathrooms'')) else pd)
      in if get pd ''balconies'' \<noteq> JUndefined \<and> get pd ''balconies'' \<noteq> JStr []
         then pd(''balconies'' \<mapsto> js_parseInt10 (get pd ''balconies'')) else pd)"

definition delete_key :: "string \<Rightarrow> js_object \<Rightarrow> js_object" where
  "delete_key k obj = obj(k := None)"

definition clean_up :: "js_object \<Rightarrow> js_object" where
  "clean_up pd =
     (let pd' = fold delete_key
                  [''contactName'', ''contactEmail'', ''contactPhone'', ''whatsappNumber'',
                   ''preferredContact'', ''latitude'', ''longitude'', ''address'', ''city'',
                   ''state'', ''zipCode'', ''country'', ''khaataNumber'', ''govArea''] pd
      in if js_truthy (field (get pd' ''govDetails'') ''surveyNumber'')
         then delete_key ''surveyNumber'' pd' else pd')"

text \<open>The object that the handler passes to \<^verbatim>\<open>Property.create\<close>.\<close>

definition propertyData_of ::
  "form_lib \<Rightarrow> req_user \<Rightarrow> form \<Rightarrow> upload_files option \<Rightarrow> db \<Rightarrow> error + js_object" where
  "propertyData_of lib user body files s =
     (case link_agent_profile user s
             (set_owner user
             (handle_insertedBy
             (handle_government_details
             (handle_disadvantages lib
             (handle_amenities lib
             (handle_location lib
             (handle_contact_information
             (handle_land_information lib
             (handle_document_uploads files
             (handle_uploaded_images files
             (\<lambda>k. map_option JStr (body k)))))))))))) of
        Inl e \<Rightarrow> Inl e
      | Inr pd \<Rightarrow> Inr (clean_up (normalize_numeric (set_default_values pd))))"

text \<open>
  \<^verbatim>\<open>Property.create\<close>: each path of the schema is cast from the object and validated
  (\<open>None\<close> stands for a failed cast or validator); keys that are no paths of the schema
  are ignored; absent paths take the schema's defaults. The timestamps option gives a new
  document the current time as \<^verbatim>\<open>createdAt\<close> unless the object sets one, and the same
  value as \<^verbatim>\<open>updatedAt\<close>.
\<close>

definition opt_string :: "jsval \<Rightarrow> string option option" where
  "opt_string v =
     (case v of JUndefined \<Rightarrow> Some None | JStr str \<Rightarrow> Some (Some str) | _ \<Rightarrow> None)"

definition opt_trimmed :: "jsval \<Rightarrow> string option option" where
  "opt_trimmed v =
     (case v of JUndefined \<Rightarrow> Some None | JStr str \<Rightarrow> Some (Some (js_trim str)) | _ \<Rightarrow> None)"

definition req_string :: "jsval \<Rightarrow> string option" where
  "req_string v = (case v of JStr str \<Rightarrow> if str \<noteq> [] then Some str else None | _ \<Rightarrow> None)"

definition opt_number :: "form_lib \<Rightarrow> jsval \<Rightarrow> number option option" where
  "opt_number lib v =
     (case v of
        JUndefined \<Rightarrow> Some None
      | JNum n \<Rightarrow> Some (Some n)
      | JStr str \<Rightarrow> if str = [] then Some None else map_option Some (toNumber lib str)
      | _ \<Rightarrow> None)"

definition req_min0 :: "form_lib \<Rightarrow> jsval \<Rightarrow> number option" where
  "req_min0 lib v =
     (case opt_number lib v of Some (Some n) \<Rightarrow> if 0 \<le> n then Some n else None | _ \<Rightarrow> None)"

definition opt_min0 :: "form_lib \<Rightarrow> jsval \<Rightarrow> number option option" where
  "opt_min0 lib v =
     (case opt_number lib v of
        Some (Some n) \<Rightarrow> if 0 \<le> n then Some (Some n) else None
      | x \<Rightarrow> x)"

definition castBoolean :: "jsval \<Rightarrow> bool option" where
  "castBoolean v =
     (if v = JBool True \<or> v = JStr ''true'' \<or> v = JNum 1 \<or> v = JStr ''1'' \<or> v = JStr ''yes''
      then Some True
      else if v = JBool False \<or> v = JStr ''false'' \<or> v = JNum 0 \<or> v = JStr ''0''
              \<or> v = JStr ''no''
      then Some False
      else None)"

definition cast_insertedBy :: "jsval \<Rightarrow> inserted_by option" where
  "cast_insertedBy v =
     (if v = JUndefined \<or> v = JStr ''Owner'' then Some Owner
      else if v = JStr ''Broker'' then Some Broker else None)"

definition cast_status :: "jsval \<Rightarrow> property_status option" where
  "cast_status v =
     (if v = JStr ''for-sale'' then Some ForSale
      else if v = JStr ''for-rent'' then Some ForRent
      else if v = JStr ''sold'' then Some Sold
      else if v = JStr ''rented'' then Some Rented else None)"

definition cast_type :: "jsval \<Rightarrow> property_type option" where
  "cast_type v =
     (if v = JStr ''apartment'' then Some Apartment
      else if v = JStr ''house'' then Some House
      else if v = JStr ''commercial'' then Some Commercial
      else if v = JStr ''industrial'' then Some Industrial
      else if v = JStr ''land'' then Some Land else None)"

definition cast_approvalStatus :: "jsval \<Rightarrow> approval option" where
  "cast_approvalStatus v =
     (if v = JUndefined \<or> v = JStr ''pending'' then Some Pending
      else if v = JStr ''approved'' then Some Approved
      else if v = JStr ''rejected'' then Some Rejected else None)"

definition cast_image :: "jsval \<Rightarrow> prop_image option" where
  "cast_image v =
     do {
       u \<leftarrow> opt_string (field v ''url'');
       a \<leftarrow> opt_string (field v ''alt'');
       pr \<leftarrow> (if field v ''isPrimary'' = JUndefined then Some False
               else castBoolean (field v ''isPrimary''));
       Some \<lparr>url = u, alt = (case a of None \<Rightarrow> [] | Some x \<Rightarrow> x), isPrimary = pr\<rparr>
     }"

fun cast_all :: "('a \<Rightarrow> 'b option) \<Rightarrow> 'a list \<Rightarrow> 'b list option" where
  "cast_all f [] = Some []"
| "cast_all f (x # xs) =
     (case f x of None \<Rightarrow> None
      | Some y \<Rightarrow> (case cast_all f xs of None \<Rightarrow> None | Some ys \<Rightarrow> Some (y # ys)))"

definition cast_images :: "jsval \<Rightarrow> prop_image list option" where
  "cast_images v = (case v of JArr vs \<Rightarrow> cast_all cast_image vs | _ \<Rightarrow> None)"

definition cast_ref :: "jsval \<Rightarrow> objectId option option" where
  "cast_ref v =
     (case v of JUndefined \<Rightarrow> Some None | JStr str \<Rightarrow> map_option Some (castObjectId str)
      | _ \<Rightarrow> None)"

definition cast_coordinate :: "jsval \<Rightarrow> number option" where
  "cast_coordinate v = (case v of JUndefined \<Rightarrow> Some 0 | JNum n \<Rightarrow> Some n | _ \<Rightarrow> None)"

text \<open>The groups of paths, as the schema lays them out.\<close>

definition cast_basic ::
  "form_lib \<Rightarrow> js_object
   \<Rightarrow> (string \<times> inserted_by \<times> string option \<times> number \<times> property_status \<times> property_type) option"
  where
  "cast_basic lib pd =
     do {
       ttl \<leftarrow> Option.bind (opt_trimmed (get pd ''title'')) (\<lambda>x. x);
       ttl \<leftarrow> (if ttl \<noteq> [] \<and> length ttl \<le> 100 then Some ttl else None);
       ins \<leftarrow> cast_insertedBy (get pd ''insertedBy'');
       dsc \<leftarrow> opt_string (get pd ''description'');
       dsc \<leftarrow> (case dsc of None \<Rightarrow> Some None
                | Some d \<Rightarrow> if length d \<le> 2000 then Some (Some d) else None);
       prc \<leftarrow> req_min0 lib (get pd ''price'');
       sts \<leftarrow> cast_status (get pd ''status'');
       typ \<leftarrow> cast_type (get pd ''type'');
       Some (ttl, ins, dsc, prc, sts, typ)
     }"

definition cast_govDetails :: "jsval \<Rightarrow> prop_govDetails option" where
  "cast_govDetails v =
     do {
       kha \<leftarrow> opt_trimmed (field v ''khaataNumber'');
       srv \<leftarrow> opt_trimmed (field v ''surveyNumber'');
       gar \<leftarrow> opt_trimmed (field v ''area'');
       Some \<lparr>khaataNumber = kha, surveyNumber = srv, gov_area = gar\<rparr>
     }"

definition cast_area ::
  "form_lib \<Rightarrow> js_object \<Rightarrow> (number \<times> number option \<times> number option) option" where
  "cast_area lib pd =
     do {
       tot \<leftarrow> req_min0 lib (get pd ''totalArea'');
       vig \<leftarrow> opt_min0 lib (get pd ''areaVigha'');
       acr \<leftarrow> opt_min0 lib (get pd ''areaAcre'');
       Some (tot, vig, acr)
     }"

definition cast_location :: "jsval \<Rightarrow> prop_location option" where
  "cast_location v =
     do {
       adr \<leftarrow> opt_trimmed (field v ''address'');
       cty \<leftarrow> opt_trimmed (field v ''city'');
       sta \<leftarrow> Option.bind (opt_trimmed (field v ''state'')) (\<lambda>x. x);
       sta \<leftarrow> (if sta \<noteq> [] then Some sta else None);
       dst \<leftarrow> opt_trimmed (field v ''district'');
       tal \<leftarrow> opt_trimmed (field v ''taluka'');
       vil \<leftarrow> opt_trimmed (field v ''village'');
       zip \<leftarrow> opt_trimmed (field v ''zipCode'');
       lat \<leftarrow> cast_coordinate (field (field v ''coordinates'') ''latitude'');
       lon \<leftarrow> cast_coordinate (field (field v ''coordinates'') ''longitude'');
       Some \<lparr>address = adr, city = cty, state = sta, district = dst, taluka = tal,
             village = vil, zipCode = zip, coordinates = \<lparr>latitude = lat, longitude = lon\<rparr>\<rparr>
     }"

definition cast_contactInfo :: "jsval \<Rightarrow> prop_contactInfo option" where
  "cast_contactInfo v =
     do {
       cnm \<leftarrow> req_string (field v ''name'');
       cem \<leftarrow> req_string (field v ''email'');
       cem \<leftarrow> (if rx_test contactEmailRegex cem then Some cem else None);
       cph \<leftarrow> req_string (field v ''phone'');
       wha \<leftarrow> opt_string (field v ''whatsappNumber'');
       Some \<lparr>contact_name = cnm, contact_email = cem, contact_phone = cph,
             whatsappNumber = wha\<rparr>
     }"

definition cast_system ::
  "form_lib \<Rightarrow> js_object
   \<Rightarrow> (objectId \<times> objectId option \<times> number \<times> bool \<times> bool \<times> approval) option" where
  "cast_system lib pd =
     do {
       own \<leftarrow> Option.bind (cast_ref (get pd ''owner'')) (\<lambda>x. x);
       agt \<leftarrow> cast_ref (get pd ''agent'');
       vws \<leftarrow> opt_number lib (get pd ''views'');
       ftr \<leftarrow> (if get pd ''isFeatured'' = JUndefined then Some False
                else castBoolean (get pd ''isFeatured''));
       pub \<leftarrow> (if get pd ''isPublished'' = JUndefined then Some True
                else castBoolean (get pd ''isPublished''));
       apr \<leftarrow> cast_approvalStatus (get pd ''approvalStatus'');
       Some (own, agt, (case vws of None \<Rightarrow> 0 | Some n \<Rightarrow> n), ftr, pub, apr)
     }"

definition cast_property :: "form_lib \<Rightarrow> date \<Rightarrow> objectId \<Rightarrow> js_object \<Rightarrow> property option" where
  "cast_property lib now newId pd =
     do {
       i \<leftarrow> (if get pd ''_id'' = JUndefined then Some newId
              else Option.bind (cast_ref (get pd ''_id'')) (\<lambda>x. x));
       (ttl, ins, dsc, prc, sts, typ) \<leftarrow> cast_basic lib pd;
       gov \<leftarrow> cast_govDetails (get pd ''govDetails'');
       dis \<leftarrow> castStringArray lib (get pd ''disadvantages'');
       (tot, vig, acr) \<leftarrow> cast_area lib pd;
       loc \<leftarrow> cast_location (get pd ''location'');
       amn \<leftarrow> castStringArray lib (get pd ''amenities'');
       img \<leftarrow> cast_images (get pd ''images'');
       con \<leftarrow> cast_contactInfo (get pd ''contactInfo'');
       (own, agt, vws, ftr, pub, apr) \<leftarrow> cast_system lib pd;
       crt \<leftarrow> (case get pd ''createdAt'' of
                 JUndefined \<Rightarrow> Some now
               | JStr str \<Rightarrow> if str = [] then Some now else toDate lib str
               | _ \<Rightarrow> None);
       Some \<lparr>p_id = i, title = ttl, insertedBy = ins, description = dsc, price = prc,
             status = sts, ptype = typ, govDetails = gov, disadvantages = dis,
             totalArea = tot, areaVigha = vig, areaAcre = acr, location = loc,
             amenities = amn, images = img, contactInfo = con, owner = own, agent_ref = agt,
             views = vws, isFeatured = ftr, isPublished = pub, approvalStatus = apr,
             createdAt = crt, updatedAt = crt\<rparr>
     }"

definition Property_create ::
  "form_lib \<Rightarrow> date \<Rightarrow> objectId \<Rightarrow> js_object \<Rightarrow> db \<Rightarrow> error + db" where
  "Property_create lib now newId pd s =
     (case cast_property lib now newId pd of
        None \<Rightarrow> Inl ValidationError
      | Some p \<Rightarrow>
          if list_ex (\<lambda>q. p_id q = p_id p) (properties s) then Inl DuplicateKey
          else Inr (s\<lparr>properties := properties s @ [p]\<rparr>))"

definition createProperty ::
  "form_lib \<Rightarrow> date \<Rightarrow> objectId \<Rightarrow> req_user \<Rightarrow> form \<Rightarrow> upload_files option \<Rightarrow> db
   \<Rightarrow> nat \<times> db" where
  "createProperty lib now newId user body files s =
     (case propertyData_of lib user body files s of
        Inl e \<Rightarrow> (500, s)
      | Inr propertyData \<Rightarrow>
          (case Property_create lib now newId propertyData s of
             Inl ValidationError \<Rightarrow> (400, s)
           | Inl DuplicateKey \<Rightarrow> (400, s)
           | Inl e \<Rightarrow> (500, s)
           | Inr s' \<Rightarrow> (201, s')))"

section \<open>Example data\<close>

definition admin1 :: req_user where
  "admin1 = \<lparr>user_id = ''aaaaaaaaaaaaaaaaaaaaaa01'', user_role = ''admin''\<rparr>"

definition admin2 :: req_user where
  "admin2 = \<lparr>user_id = ''aaaaaaaaaaaaaaaaaaaaaa02'', user_role = ''admin''\<rparr>"

definition admin_account :: user where
  "admin_account =
     \<lparr>u_id = ''aaaaaaaaaaaaaaaaaaaaaa01'', u_name = ''Admin'', email = Some ''admin@mail.com'',
      phone = None, password = ''hash0'', role = ''admin'', u_isActive = True, favorites = []\<rparr>"

definition asha :: user where
  "asha =
     \<lparr>u_id = ''cccccccccccccccccccccc01'', u_name = ''Asha'', email = Some ''asha@mail.com'',
      phone = Some ''9999999999'', password = ''hash1'', role = ''agent'', u_isActive = True,
      favorites = []\<rparr>"

definition asha_session :: req_user where
  "asha_session = \<lparr>user_id = ''cccccccccccccccccccccc01'', user_role = ''agent''\<rparr>"

definition visitor :: req_user where
  "visitor = \<lparr>user_id = ''cccccccccccccccccccccc02'', user_role = ''user''\<rparr>"

definition asha_agent :: agent where
  "asha_agent =
     \<lparr>a_id = ''dddddddddddddddddddddd01'', a_user = ''cccccccccccccccccccccc01'', bio = Some [],
      specialties = [], languages = [], experience = 0,
      ratings = \<lparr>average = 0, count = 0\<rparr>, reviews = [], isVerified = True,
      a_isActive = True\<rparr>"

definition property0 :: property where
  "property0 =
     \<lparr>p_id = ''bbbbbbbbbbbbbbbbbbbbbb01'', title = ''Farm land'', insertedBy = Owner,
      description = None, price = 100, status = ForSale, ptype = Land,
      govDetails = \<lparr>khaataNumber = None, surveyNumber = None, gov_area = None\<rparr>,
      disadvantages = [], totalArea = 5, areaVigha = None, areaAcre = None,
      location = \<lparr>address = Some ''Main road'', city = Some ''Rajkot'', state = ''Gujarat'',
                  district = None, taluka = None, village = None, zipCode = Some [],
                  coordinates = \<lparr>latitude = 0, longitude = 0\<rparr>\<rparr>,
      amenities = [], images = [],
      contactInfo = \<lparr>contact_name = ''Asha'', contact_email = ''a@b.co'',
                     contact_phone = ''9999999999'', whatsappNumber = None\<rparr>,
      owner = ''cccccccccccccccccccccc01'', agent_ref = None, views = 0, isFeatured = False,
      isPublished = False, approvalStatus = Pending, createdAt = 1000, updatedAt = 1000\<rparr>"

definition db0 :: db where
  "db0 = \<lparr>users = [admin_account, asha], agents = [asha_agent], properties = [property0]\<rparr>"

definition property1 :: property where
  "property1 = property0\<lparr>p_id := ''bbbbbbbbbbbbbbbbbbbbbb03'', approvalStatus := Approved\<rparr>"

definition db1 :: db where
  "db1 = db0\<lparr>properties := [property0, property1]\<rparr>"

definition cfg0 :: mongoose_cfg where
  "cfg0 = \<lparr>strictQuery = True, subdocRemove = True\<rparr>"

definition empty_query :: list_query where
  "empty_query =
     \<lparr>q_page = None, q_limit = None, minPrice = None, maxPrice = None, propertyType = None,
      q_status = None, q_city = None, q_district = None, q_village = None, bedrooms = None,
      bathrooms = None, minArea = None, maxArea = None, q_sort = None\<rparr>"

text \<open>Stand-ins for the library functions, defined on the inputs the examples use.\<close>

definition demo_js :: js_lib where
  "demo_js =
     \<lparr>parseFloat = (\<lambda>str. map_option of_int (parseInt str)),
      regExp_i = (\<lambda>pat. Some (\<lambda>str. str = pat))\<rparr>"

definition demo_lib :: form_lib where
  "demo_lib =
     \<lparr>parseFloat = (\<lambda>str. map_option of_int (parseInt str)),
      regExp_i = (\<lambda>pat. Some (\<lambda>str. str = pat)),
      JSON_parse = (\<lambda>str. if str = ''[]'' then Some (JArr []) else None),
      toNumber = (\<lambda>str. map_option of_int (parseInt str)),
      castStringArray =
        (\<lambda>v. case v of
               JArr vs \<Rightarrow> cast_all (\<lambda>x. case x of JStr t \<Rightarrow> Some (js_trim t) | _ \<Rightarrow> None) vs
             | _ \<Rightarrow> None),
      toDate = (\<lambda>str. map_option nat (parseInt str))\<rparr>"

text \<open>A submission that asks to be approved and published at once.\<close>

definition demo_form :: form where
  "demo_form =
     map_of [(''title'', ''Farm house''), (''price'', ''250''), (''status'', ''for-sale''),
             (''type'', ''land''), (''totalArea'', ''12''), (''address'', ''Ring road''),
             (''city'', ''Rajkot''), (''state'', ''Gujarat''), (''latitude'', ''22''),
             (''longitude'', ''70''), (''contactName'', ''Asha''), (''contactEmail'', ''a@b.co''),
             (''contactPhone'', ''9999999999''), (''approvalStatus'', ''approved''),
             (''isPublished'', ''true'')]"

definition submitted :: property where
  "submitted =
     \<lparr>p_id = ''bbbbbbbbbbbbbbbbbbbbbb02'', title = ''Farm house'', insertedBy = Owner,
      description = None, price = 250, status = ForSale, ptype = Land,
      govDetails = \<lparr>khaataNumber = None, surveyNumber = None, gov_area = None\<rparr>,
      disadvantages = [], totalArea = 12, areaVigha = None, areaAcre = None,
      location = \<lparr>address = Some ''Ring road'', city = Some ''Rajkot'', state = ''Gujarat'',
                  district = None, taluka = None, village = None, zipCode = Some [],
                  coordinates = \<lparr>latitude = 22, longitude = 70\<rparr>\<rparr>,
      amenities = [], images = [],
      contactInfo = \<lparr>contact_name = ''Asha'', contact_email = ''a@b.co'',
                     contact_phone = ''9999999999'', whatsappNumber = None\<rparr>,
      owner = ''cccccccccccccccccccccc01'', agent_ref = Some ''dddddddddddddddddddddd01'',
      views = 0, isFeatured = False, isPublished = False, approvalStatus = Pending,
      createdAt = 3000, updatedAt = 3000\<rparr>"

section \<open>Auxiliary facts\<close>

lemma lower_hex_fix: "is_lower_hex c \<Longrightarrow> is_hex c \<and> hex_lower c = c"
  by (auto simp: is_lower_hex_def is_hex_def hex_lower_def)

lemma is_oid_cast: "is_oid str \<Longrightarrow> castObjectId str = Some str"
proof -
  assume a: "is_oid str"
  then have "list_all is_hex str" "map hex_lower str = str"
    by (auto simp: is_oid_def list_all_iff lower_hex_fix intro: map_idI)
  with a show ?thesis by (simp add: castObjectId_def is_oid_def)
qed

lemma find_replace:
  "find (\<lambda>q. k q = i) xs = Some a \<Longrightarrow> k b = i \<Longrightarrow>
   find (\<lambda>q. k q = i) (map (\<lambda>q. if k q = i then b else q) xs) = Some b"
  by (induction xs) (auto split: if_splits)

lemma find_Some_ex: "find P xs = Some a \<Longrightarrow> list_ex P xs \<and> P a"
  by (induction xs) (auto split: if_splits)

lemma find_append_last: "find P xs = None \<Longrightarrow> P y \<Longrightarrow> find P (xs @ [y]) = Some y"
  by (induction xs) (auto split: if_splits)

lemma reviews_calculateAverageRating: "reviews (calculateAverageRating a) = reviews a"
  by (simp add: calculateAverageRating_def Let_def)

lemma a_id_calculateAverageRating: "a_id (calculateAverageRating a) = a_id a"
  by (simp add: calculateAverageRating_def Let_def)

subsection \<open>Pagination and the decimal page parameter\<close>

declare decimal.simps [simp del]

lemma digit_cases: "d < 10 \<Longrightarrow> d \<in> {0, 1, 2, 3, 4, 5, 6, 7, 8, 9::nat}"
  by auto

lemma digit_char_props:
  assumes "d < 10"
  shows "is_digit (digit_char d)" "digit_of 10 (digit_char d) = Some d"
  using digit_cases[OF assms]
  by (auto simp: digit_char_def is_digit_def digit_of_def)

lemma is_digit_props:
  assumes "is_digit c"
  shows "\<not> is_js_space c" "c \<noteq> CHR ''-''" "c \<noteq> CHR ''+''" "c \<noteq> CHR ''x''" "c \<noteq> CHR ''X''"
        "digit_of 10 c \<noteq> None"
  using assms by (auto simp: is_digit_def is_js_space_def digit_of_def)

lemma decimal_digits: "list_all is_digit (decimal n) \<and> decimal n \<noteq> []"
proof (induction n rule: decimal.induct)
  case (1 n)
  show ?case
  proof (cases "n < 10")
    case True
    then show ?thesis by (simp add: decimal.simps[of n] digit_char_props)
  next
    case False
    with 1 show ?thesis by (simp add: decimal.simps[of n] digit_char_props)
  qed
qed

lemma decimal_value:
  "foldl (\<lambda>acc c. acc * 10 + the (digit_of 10 c)) 0 (decimal n) = n"
proof (induction n rule: decimal.induct)
  case (1 n)
  show ?case
  proof (cases "n < 10")
    case True
    then show ?thesis by (simp add: decimal.simps[of n] digit_char_props)
  next
    case False
    with 1 show ?thesis by (simp add: decimal.simps[of n] digit_char_props)
  qed
qed

lemma parseInt_digits:
  assumes "list_all is_digit cs" "cs \<noteq> []"
  shows "parseInt cs = Some (int (foldl (\<lambda>acc c. acc * 10 + the (digit_of 10 c)) 0 cs))"
proof -
  from assms obtain c r where cs: "cs = c # r" and c: "is_digit c" and r: "list_all is_digit r"
    by (cases cs) auto
  have nohex:
    "(case cs of a # b # r \<Rightarrow> a = CHR ''0'' \<and> (b = CHR ''x'' \<or> b = CHR ''X'') | _ \<Rightarrow> False) = False"
    using cs r by (cases r) (auto simp: is_digit_props)
  have tw: "takeWhile (\<lambda>c. digit_of 10 c \<noteq> None) cs = cs"
    using assms(1) is_digit_props(6) by (simp add: list_all_iff)
  have dw: "dropWhile is_js_space cs = cs"
    using cs c by (simp add: is_digit_props)
  show ?thesis
    unfolding parseInt_def dw Let_def
    using cs c nohex tw by (simp add: is_digit_props)
qed

lemma parseInt_decimal: "parseInt (decimal n) = Some (int n)"
  using parseInt_digits[of "decimal n"] decimal_digits[of n] by (simp add: decimal_value)

lemma parseInt_or_decimal: "0 < n \<Longrightarrow> parseInt_or (Some (decimal n)) d = int n"
  by (simp add: parseInt_or_def parseInt_decimal)

lemma skip_limit_subset: "skip_limit skip limit xs = Inr ys \<Longrightarrow> set ys \<subseteq> set xs"
  by (auto simp: skip_limit_def split: if_splits dest: in_set_takeD in_set_dropD)

text \<open>With a positive page size every element of a list is on one of the pages.\<close>

lemma page_covers:
  assumes "0 < L" and "p \<in> set xs"
  shows "\<exists>n>0. skip_limit ((int n - 1) * L) L xs \<noteq> Inl StorageError
               \<and> (\<forall>ys. skip_limit ((int n - 1) * L) L xs = Inr ys \<longrightarrow> p \<in> set ys)"
proof -
  from assms(2) obtain i where i: "i < length xs" "xs ! i = p"
    by (auto simp: in_set_conv_nth)
  define l where "l = nat L"
  have l: "0 < l" "L = int l" using assms(1) by (simp_all add: l_def)
  define k where "k = i div l"
  have sk: "nat ((int (Suc k) - 1) * L) = k * l" by (simp add: l nat_mult_distrib)
  have lo: "k * l \<le> i" by (simp add: k_def)
  have "i - k * l = i mod l" unfolding k_def by (simp add: minus_div_mult_eq_mod)
  then have hi: "i - k * l < l" using l(1) by simp
  have "(drop (k * l) xs) ! (i - k * l) = p" using i lo by simp
  moreover have "i - k * l < length (drop (k * l) xs)" using i lo by simp
  ultimately have "p \<in> set (take l (drop (k * l) xs))"
    using hi by (metis in_set_conv_nth length_take min_less_iff_conj nth_take)
  then have "p \<in> set (take (nat \<bar>L\<bar>) (drop (nat ((int (Suc k) - 1) * L)) xs))"
    using sk l by simp
  moreover have "\<not> (int (Suc k) - 1) * L < 0"
    using assms(1) by (simp add: not_less zero_le_mult_iff)
  ultimately show ?thesis
    by (intro exI[of _ "Suc k"]) (auto simp: skip_limit_def)
qed

subsection \<open>The listing filter\<close>

lemma getProperties_filter_head:
  assumes "getProperties_filter lib cfg query = Inr flt"
  shows "\<exists>rest. flt = (\<lambda>p. isPublished p = True \<or> approvalStatus p = Approved) # rest"
  using assms
  by (auto simp: getProperties_filter_def Let_def split: sum.splits if_splits)

lemma getProperties_filter_unfiltered:
  assumes "unfiltered query"
  shows "getProperties_filter lib cfg query =
           Inr [\<lambda>p. isPublished p = True \<or> approvalStatus p = Approved]"
  using assms
  by (simp add: getProperties_filter_def unfiltered_def regex_key_def nonschema_key_def Let_def)

lemma set_getProperties_sort: "set (getProperties_sort x ps) = set ps"
  by (simp add: getProperties_sort_def)

subsection \<open>The object handed to Property.create\<close>

lemma normalize_numeric_other:
  "k \<noteq> ''bathrooms'' \<Longrightarrow> k \<noteq> ''balconies'' \<Longrightarrow> normalize_numeric pd k = pd k"
  by (simp add: normalize_numeric_def Let_def)

lemma fold_delete_key_other: "k \<notin> set ks \<Longrightarrow> fold delete_key ks obj k = obj k"
  by (induction ks arbitrary: obj) (auto simp: delete_key_def)

lemma clean_up_other:
  assumes "k \<notin> set [''contactName'', ''contactEmail'', ''contactPhone'', ''whatsappNumber'',
                      ''preferredContact'', ''latitude'', ''longitude'', ''address'', ''city'',
                      ''state'', ''zipCode'', ''country'', ''khaataNumber'', ''govArea'']"
      and "k \<noteq> ''surveyNumber''"
  shows "clean_up pd k = pd k"
proof -
  define pd' where
    "pd' = fold delete_key
             [''contactName'', ''contactEmail'', ''contactPhone'', ''whatsappNumber'',
              ''preferredContact'', ''latitude'', ''longitude'', ''address'', ''city'',
              ''state'', ''zipCode'', ''country'', ''khaataNumber'', ''govArea''] pd"
  have keep: "pd' k = pd k"
    unfolding pd'_def using assms(1) by (rule fold_delete_key_other)
  have "clean_up pd = (if js_truthy (field (get pd' ''govDetails'') ''surveyNumber'')
                       then delete_key ''surveyNumber'' pd' else pd')"
    by (simp only: clean_up_def Let_def pd'_def)
  then show ?thesis
    using keep assms(2) by (simp add: delete_key_def)
qed

text \<open>Whatever the form says, the object reaches \<^verbatim>\<open>Property.create\<close> pending and unpublished.\<close>

lemma propertyData_of_forced:
  assumes "propertyData_of lib user body files s = Inr pd"
  shows "get pd ''approvalStatus'' = JStr ''pending'' \<and> get pd ''isPublished'' = JBool False"
proof -
  from assms obtain pd0 where pd: "pd = clean_up (normalize_numeric (set_default_values pd0))"
    by (auto simp: propertyData_of_def split: sum.splits)
  have "pd ''approvalStatus'' = set_default_values pd0 ''approvalStatus''"
    unfolding pd by (simp add: clean_up_other normalize_numeric_other)
  moreover have "pd ''isPublished'' = set_default_values pd0 ''isPublished''"
    unfolding pd by (simp add: clean_up_other normalize_numeric_other)
  ultimately show ?thesis
    by (simp add: get_def set_default_values_def)
qed

lemma cast_system_forced:
  assumes "cast_system lib pd = Some (own, agt, vws, ftr, pub, apr)"
      and "get pd ''approvalStatus'' = JStr ''pending''"
      and "get pd ''isPublished'' = JBool False"
  shows "apr = Pending \<and> pub = False"
  using assms
  by (auto simp: cast_system_def bind_eq_Some_conv cast_approvalStatus_def castBoolean_def)

lemma cast_property_system:
  assumes "cast_property lib now newId pd = Some p"
  shows "\<exists>own agt vws ftr.
           cast_system lib pd = Some (own, agt, vws, ftr, isPublished p, approvalStatus p)"
proof -
  from assms obtain sys where sys: "cast_system lib pd = Some sys"
    by (auto simp: cast_property_def bind_eq_Some_conv simp del: split_paired_Ex
             split: prod.splits)
  obtain own agt vws ftr pub apr where t: "sys = (own, agt, vws, ftr, pub, apr)"
    by (cases sys) auto
  from assms sys t have "isPublished p = pub \<and> approvalStatus p = apr"
    by (auto simp: cast_property_def bind_eq_Some_conv split: prod.splits)
  with sys t show ?thesis by blast
qed

subsection \<open>The library models on sample inputs\<close>

lemma emailRegex_samples:
  "rx_test emailRegex ''ravi@mail.com''" "\<not> rx_test emailRegex ''ravi@mail''"
  "\<not> rx_test emailRegex ''ra vi@mail.com''" "\<not> rx_test emailRegex ''a@b@c.de''"
  by code_simp+

lemma mobileRegex_samples:
  "rx_test mobileRegex ''9999999999''" "\<not> rx_test mobileRegex ''999999999''"
  "\<not> rx_test mobileRegex ''99999999990''" "\<not> rx_test mobileRegex ''99999x9999''"
  by code_simp+

lemma contactEmailRegex_samples:
  "rx_test contactEmailRegex ''a.b-c@mail.co.uk''" "\<not> rx_test contactEmailRegex ''a..b@mail.com''"
  "\<not> rx_test contactEmailRegex ''a@mail.c''" "\<not> rx_test contactEmailRegex ''a@mail.comm''"
  by code_simp+

lemma parseInt_samples:
  "parseInt ''12abc'' = Some 12" "parseInt '' 0x1F'' = Some 31" "parseInt ''-7'' = Some (- 7)"
  "parseInt ''abc'' = None" "parseInt [] = None" "parseInt_or (Some ''0'') 10 = 10"
  by code_simp+

lemma js_trim_samples:
  "js_trim ''  too cheap '' = ''too cheap''" "js_trim ''   '' = []"
  by code_simp+

lemma castObjectId_samples:
  "castObjectId ''AAAAAAAAAAAAAAAAAAAAAA01'' = Some ''aaaaaaaaaaaaaaaaaaaaaa01''"
  "castObjectId ''aaaaaaaaaaaaaaaaaaaaaa01'' = Some ''aaaaaaaaaaaaaaaaaaaaaa01''"
  "castObjectId ''not-an-id'' = None"
  by code_simp+

section \<open>What the handlers guarantee\<close>

lemma foldl_sum: "foldl (\<lambda>acc review. acc + rating review) z rs = z + sum_list (map rating rs)"
  by (induction rs arbitrary: z) auto

lemma calculateAverageRating_derived: "derived_ratings (calculateAverageRating a)"
  by (simp add: derived_ratings_def calculateAverageRating_def Let_def foldl_sum)

lemma find_None_ex: "find P xs = None \<longleftrightarrow> \<not> list_ex P xs"
  by (auto simp: find_None_iff list_ex_iff)

lemma Agent_save_derived:
  assumes "Agent_save a s = Inr s'"
  shows "\<exists>a'. find (\<lambda>q. a_id q = a_id a) (agents s') = Some a' \<and> derived_ratings a'
              \<and> reviews a' = reviews a"
proof -
  let ?a = "calculateAverageRating a"
  have k: "a_id ?a = a_id a" by (simp add: calculateAverageRating_def Let_def)
  have r: "reviews ?a = reviews a" by (simp add: calculateAverageRating_def Let_def)
  have "find (\<lambda>q. a_id q = a_id a) (agents s') = Some ?a"
  proof (cases "find (\<lambda>q. a_id q = a_id a) (agents s)")
    case None
    then have "\<not> list_ex (\<lambda>q. a_id q = a_id a) (agents s)" by (simp add: find_None_ex)
    moreover have "find (\<lambda>q. a_id q = a_id a) (agents s @ [?a]) = Some ?a"
      using find_append_last[OF None, of ?a] k by simp
    ultimately show ?thesis using assms by (auto simp: Agent_save_def Let_def split: if_splits)
  next
    case (Some b)
    then have "list_ex (\<lambda>q. a_id q = a_id a) (agents s)" using find_Some_ex by fastforce
    moreover have "find (\<lambda>q. a_id q = a_id a)
                 (map (\<lambda>q. if a_id q = a_id a then ?a else q) (agents s)) = Some ?a"
      using find_replace[OF Some k] .
    ultimately show ?thesis using assms by (auto simp: Agent_save_def Let_def split: if_splits)
  qed
  then show ?thesis using calculateAverageRating_derived r by blast
qed

lemma addAgentReview_derived:
  assumes "addAgentReview now newId req_user aid body s = (201, s')"
  shows "\<exists>a'. Agent_findById aid s' = Inr (Some a') \<and> derived_ratings a'"
proof -
  from assms obtain i a a1 where i: "castObjectId aid = Some i"
    and a: "find (\<lambda>q. a_id q = i) (agents s) = Some a"
    and sv: "Agent_save a1 s = Inr s'" and k: "a_id a1 = a_id a"
    by (auto simp: addAgentReview_def Agent_findById_def Let_def
             split: option.splits sum.splits)
  from find_Some_ex[OF a] have "a_id a = i" by simp
  with Agent_save_derived[OF sv] k i show ?thesis by (auto simp: Agent_findById_def)
qed

lemma updateAgentReview_derived:
  assumes "updateAgentReview req_user aid rid body s = (200, s')"
  shows "\<exists>a'. Agent_findById aid s' = Inr (Some a') \<and> derived_ratings a'"
proof -
  from assms obtain i a a1 where i: "castObjectId aid = Some i"
    and a: "find (\<lambda>q. a_id q = i) (agents s) = Some a"
    and sv: "Agent_save a1 s = Inr s'" and k: "a_id a1 = a_id a"
    by (auto simp: updateAgentReview_def Agent_findById_def Let_def
             split: option.splits sum.splits if_splits)
  from find_Some_ex[OF a] have "a_id a = i" by simp
  with Agent_save_derived[OF sv] k i show ?thesis by (auto simp: Agent_findById_def)
qed

lemma deleteAgentReview_derived:
  assumes "deleteAgentReview cfg req_user aid rid s = (200, s')"
  shows "\<exists>a'. Agent_findById aid s' = Inr (Some a') \<and> derived_ratings a'"
proof -
  from assms obtain i a a1 where i: "castObjectId aid = Some i"
    and a: "find (\<lambda>q. a_id q = i) (agents s) = Some a"
    and sv: "Agent_save a1 s = Inr s'" and k: "a_id a1 = a_id a"
    by (auto simp: deleteAgentReview_def Agent_findById_def Let_def
             split: option.splits sum.splits if_splits)
  from find_Some_ex[OF a] have "a_id a = i" by simp
  with Agent_save_derived[OF sv] k i show ?thesis by (auto simp: Agent_findById_def)
qed

lemma approveProperty_already_approved:
  "Property_findById pid s = Inr (Some p) \<Longrightarrow> approvalStatus p = Approved
   \<Longrightarrow> approveProperty now user pid s = (400, s)"
  by (simp add: approveProperty_def)

lemma approveProperty_transition:
  assumes "Property_findById pid s = Inr (Some p)" "approvalStatus p \<noteq> Approved"
      and "validateProperty p"
  shows "approveProperty now user pid s =
           (200, s\<lparr>properties :=
                  map (\<lambda>q. if p_id q = p_id p
                           then p\<lparr>approvalStatus := Approved, isPublished := True,
                                  updatedAt := now\<rparr>
                           else q) (properties s)\<rparr>)"
  using assms
  by (simp add: approveProperty_def Property_save_def set_expando_def load_def Let_def
        validateProperty_def)

lemma rejectProperty_blank_reason:
  "rejectProperty now user pid None s = (400, s)"
  "js_trim reason = [] \<Longrightarrow> rejectProperty now user pid (Some reason) s = (400, s)"
  by (simp_all add: rejectProperty_def)

lemma rejectProperty_already_rejected:
  "Property_findById pid s = Inr (Some p) \<Longrightarrow> approvalStatus p = Rejected
   \<Longrightarrow> fst (rejectProperty now user pid reason s) = 400
       \<and> snd (rejectProperty now user pid reason s) = s"
  by (simp add: rejectProperty_def split: option.splits)

lemma rejectProperty_transition:
  assumes "Property_findById pid s = Inr (Some p)" "approvalStatus p \<noteq> Rejected"
      and "validateProperty p" and "js_trim reason \<noteq> []"
  shows "rejectProperty now user pid (Some reason) s =
           (200, s\<lparr>properties :=
                  map (\<lambda>q. if p_id q = p_id p
                           then p\<lparr>approvalStatus := Rejected, isPublished := False,
                                  updatedAt := now\<rparr>
                           else q) (properties s)\<rparr>)"
proof -
  from assms(4) have "reason \<noteq> []" by (auto simp: js_trim_def)
  with assms show ?thesis
    by (simp add: rejectProperty_def Property_save_def set_expando_def load_def Let_def
          validateProperty_def)
qed

lemma self_guard_canonical:
  "deleteUser req_user (user_id req_user) s = (400, s)"
  "updateUserRole newId req_user (user_id req_user) r s = (400, s)"
  "is_oid (user_id req_user) \<Longrightarrow> User_findById (user_id req_user) s = Inr (Some account)
   \<Longrightarrow> admin_deleteUser req_user (user_id req_user) s = (400, s)"
proof -
  show "deleteUser req_user (user_id req_user) s = (400, s)" by (simp add: deleteUser_def)
  show "updateUserRole newId req_user (user_id req_user) r s = (400, s)"
    by (simp add: updateUserRole_def)
  assume o: "is_oid (user_id req_user)"
     and f: "User_findById (user_id req_user) s = Inr (Some account)"
  from f is_oid_cast[OF o]
  have "find (\<lambda>u. u_id u = user_id req_user) (users s) = Some account"
    by (simp add: User_findById_def)
  from find_Some_ex[OF this] have "u_id account = user_id req_user" by simp
  with f show "admin_deleteUser req_user (user_id req_user) s = (400, s)"
    by (simp add: admin_deleteUser_def)
qed

lemma deleteUser_cascade:
  assumes "deleteUser req_user userId s = (200, s')"
  shows "\<exists>oid. castObjectId userId = Some oid
               \<and> agents s' = delete_first (\<lambda>a. a_user a = oid) (agents s)
               \<and> users s' = delete_first (\<lambda>u. u_id u = oid) (users s)"
  using assms
  by (auto simp: deleteUser_def User_findById_def Agent_findOneAndDelete_user_def
        User_findByIdAndDelete_def split: if_splits option.splits sum.splits)

lemma searchProperties_only_published:
  assumes "p \<in> set (fst (snd (searchProperties eng query s)))"
  shows "isPublished p \<and> p \<in> set (properties s)"
proof -
  from assms obtain q items found where
    found: "found = filter (\<lambda>p. score eng q p \<noteq> None \<and> isPublished p) (properties s)"
    and "skip_limit ((parseInt_or (sq_page query) 1 - 1) * parseInt_or (sq_limit query) 10)
           (parseInt_or (sq_limit query) 10)
           (rev (sort_key (\<lambda>p. the (score eng q p)) found)) = Inr items"
    and "p \<in> set items"
    by (auto simp: searchProperties_def Let_def split: option.splits if_splits sum.splits)
  then have "p \<in> set found" using skip_limit_subset by fastforce
  with found show ?thesis by simp
qed

lemma register_conflict:
  "truthy (reg_email body) \<Longrightarrow> User_findOne_email (the (reg_email body)) s \<noteq> None
   \<Longrightarrow> register User_create newId body s = (400, s)"
  "\<not> truthy (reg_email body) \<Longrightarrow> truthy (reg_mobile body)
   \<Longrightarrow> User_findOne_phone (the (reg_mobile body)) s \<noteq> None
   \<Longrightarrow> register User_create newId body s = (400, s)"
  by (simp_all add: register_def Let_def)

section \<open>The claims\<close>

text \<open>
  C1. The public listing returns only properties that are published or approved, whatever
  the request; and for a request without filter parameters (and a positive page size), a
  property of the collection appears on some page of the listing exactly when it is
  published or approved.
\<close>

theorem getProperties_public_visibility:
  "(p \<in> set (fst (snd (getProperties lib cfg query s)))
      \<longrightarrow> p \<in> set (properties s) \<and> (isPublished p \<or> approvalStatus p = Approved))
   \<and> (unfiltered query \<and> 0 < parseInt_or (q_limit query) 10
      \<longrightarrow> ((\<exists>pg. p \<in> set (fst (snd (getProperties lib cfg (query\<lparr>q_page := pg\<rparr>) s))))
           \<longleftrightarrow> p \<in> set (properties s) \<and> (isPublished p \<or> approvalStatus p = Approved)))"
proof -
  let ?vis = "\<lambda>p. isPublished p \<or> approvalStatus p = Approved"
  have sound: "p \<in> set (fst (snd (getProperties lib cfg q s)))
                \<Longrightarrow> p \<in> set (properties s) \<and> ?vis p" for q
  proof -
    assume p: "p \<in> set (fst (snd (getProperties lib cfg q s)))"
    then obtain flt where flt: "getProperties_filter lib cfg q = Inr flt"
      by (cases "getProperties_filter lib cfg q") (auto simp: getProperties_def Let_def)
    from getProperties_filter_head[OF flt] obtain rest where
      rest: "flt = (\<lambda>p. isPublished p = True \<or> approvalStatus p = Approved) # rest" by blast
    define found where "found = filter (\<lambda>p. list_all (\<lambda>c. c p) flt) (properties s)"
    from p flt obtain items where
      "skip_limit ((parseInt_or (q_page q) 1 - 1) * parseInt_or (q_limit q) 10)
         (parseInt_or (q_limit q) 10) (getProperties_sort (q_sort q) found) = Inr items"
      and "p \<in> set items"
      by (auto simp: getProperties_def Let_def found_def split: sum.splits)
    then have "p \<in> set found"
      using skip_limit_subset set_getProperties_sort by blast
    then show ?thesis by (auto simp: found_def rest)
  qed
  have complete: "\<exists>pg. p \<in> set (fst (snd (getProperties lib cfg (query\<lparr>q_page := pg\<rparr>) s)))"
    if u: "unfiltered query" and L: "0 < parseInt_or (q_limit query) 10"
      and p: "p \<in> set (properties s)" "?vis p"
  proof -
    define L where "L = parseInt_or (q_limit query) 10"
    define found where "found = filter ?vis (properties s)"
    have pf: "p \<in> set (getProperties_sort (q_sort query) found)"
      using p by (simp add: set_getProperties_sort found_def)
    from page_covers[OF L[folded L_def] pf] obtain n where n: "0 < n"
      and ok: "skip_limit ((int n - 1) * L) L (getProperties_sort (q_sort query) found)
                 \<noteq> Inl StorageError"
      and mem: "\<forall>ys. skip_limit ((int n - 1) * L) L (getProperties_sort (q_sort query) found)
                  = Inr ys \<longrightarrow> p \<in> set ys"
      by blast
    have u': "unfiltered (query\<lparr>q_page := Some (decimal n)\<rparr>)"
      using u by (simp add: unfiltered_def)
    obtain ys where ys: "skip_limit ((int n - 1) * L) L
                           (getProperties_sort (q_sort query) found) = Inr ys"
      using ok by (auto simp: skip_limit_def split: if_splits)
    have "fst (snd (getProperties lib cfg (query\<lparr>q_page := Some (decimal n)\<rparr>) s)) = ys"
      using ys n
      by (simp add: getProperties_def getProperties_filter_unfiltered[OF u'] Let_def
            parseInt_or_decimal L_def found_def)
    with mem ys show ?thesis by blast
  qed
  show ?thesis using sound complete by blast
qed

theorem getProperties_public_visibility_witness:
  "unfiltered empty_query \<and> 0 < parseInt_or (q_limit empty_query) 10
   \<and> getProperties demo_js cfg0 empty_query db1 = (200, [property1], 1)
   \<and> property1 \<in> set (properties db1) \<and> approvalStatus property1 = Approved
   \<and> (\<exists>pg. property1 \<in> set (fst (snd (getProperties demo_js cfg0
                                         (empty_query\<lparr>q_page := pg\<rparr>) db1))))
   \<and> property0 \<in> set (properties db1)
   \<and> \<not> (\<exists>pg. property0 \<in> set (fst (snd (getProperties demo_js cfg0
                                          (empty_query\<lparr>q_page := pg\<rparr>) db1))))"
proof -
  have h1: "unfiltered empty_query" by code_simp
  have h2: "0 < parseInt_or (q_limit empty_query) 10" by code_simp
  have ev: "getProperties demo_js cfg0 empty_query db1 = (200, [property1], 1)" by code_simp
  have v1: "property1 \<in> set (properties db1) \<and> approvalStatus property1 = Approved"
    by code_simp
  have v0: "property0 \<in> set (properties db1)
            \<and> \<not> (isPublished property0 \<or> approvalStatus property0 = Approved)"
    by code_simp
  from getProperties_public_visibility[of property1 demo_js cfg0 empty_query db1] h1 h2 v1
  have a: "\<exists>pg. property1 \<in> set (fst (snd (getProperties demo_js cfg0
                                           (empty_query\<lparr>q_page := pg\<rparr>) db1)))"
    by blast
  from getProperties_public_visibility[of property0 demo_js cfg0 empty_query db1] h1 h2 v0
  have b: "\<not> (\<exists>pg. property0 \<in> set (fst (snd (getProperties demo_js cfg0
                                               (empty_query\<lparr>q_page := pg\<rparr>) db1))))"
    by blast
  show ?thesis using h1 h2 ev v1 v0 a b by blast
qed

text \<open>
  C2. Claim: after every persisted mutation of an agent, review changes and profile updates
  alike, \<^verbatim>\<open>ratings.average\<close> is the mean of the review ratings (0 without reviews) and
  \<^verbatim>\<open>ratings.count\<close> is the number of reviews.

  The review handlers persist through \<^verbatim>\<open>save\<close>, whose hook recomputes the ratings.
  \<^verbatim>\<open>updateAgent\<close> persists through \<^verbatim>\<open>findByIdAndUpdate\<close>, which runs no such hook and
  takes the ratings from the request body: an agent without reviews gives herself an
  average of 5 over 12 reviews, where the recomputation would give 0 and 0.
\<close>

theorem updateAgent_ratings_not_derived:
  "updateAgent asha_session ''dddddddddddddddddddddd01''
     \<lparr>up_user = None, up_bio = None, up_specialties = None, up_languages = None,
      up_experience = None, up_ratings = Some \<lparr>average = 5, count = 12\<rparr>, up_reviews = None,
      up_isVerified = None, up_isActive = None\<rparr> db0
   = (200, db0\<lparr>agents := [asha_agent\<lparr>ratings := \<lparr>average = 5, count = 12\<rparr>\<rparr>]\<rparr>)
   \<and> reviews asha_agent = []
   \<and> \<not> derived_ratings (asha_agent\<lparr>ratings := \<lparr>average = 5, count = 12\<rparr>\<rparr>)"
  by code_simp

text \<open>
  C3. Claim: approving an already approved property fails with 400 and changes nothing;
  otherwise approval sets \<^verbatim>\<open>approvalStatus\<close> to approved, \<^verbatim>\<open>approvedBy\<close> to the admin,
  \<^verbatim>\<open>approvedAt\<close> to the current time and \<^verbatim>\<open>isPublished\<close> to true.

  The handler assigns \<^verbatim>\<open>approvedBy\<close> and \<^verbatim>\<open>approvedAt\<close>, but the Property schema declares
  neither path, so \<^verbatim>\<open>save\<close> writes neither: the stored document changes in
  \<^verbatim>\<open>approvalStatus\<close>, \<^verbatim>\<open>isPublished\<close> and \<^verbatim>\<open>updatedAt\<close> only, and approvals by two
  different admins leave the same store.
\<close>

theorem approveProperty_stores_no_approver:
  "approveProperty now user pid s = approveProperty now user' pid s
   \<and> approveProperty 2000 admin1 ''bbbbbbbbbbbbbbbbbbbbbb01'' db0 =
     (200, db0\<lparr>properties :=
             [property0\<lparr>approvalStatus := Approved, isPublished := True, updatedAt := 2000\<rparr>]\<rparr>)
   \<and> approveProperty 2000 admin2 ''bbbbbbbbbbbbbbbbbbbbbb01'' db0 =
     approveProperty 2000 admin1 ''bbbbbbbbbbbbbbbbbbbbbb01'' db0"
proof -
  have "approveProperty now user pid s = approveProperty now user' pid s"
    by (simp add: approveProperty_def Property_save_def set_expando_def load_def Let_def
             split: sum.splits option.splits)
  moreover have "approveProperty 2000 admin1 ''bbbbbbbbbbbbbbbbbbbbbb01'' db0 =
     (200, db0\<lparr>properties :=
             [property0\<lparr>approvalStatus := Approved, isPublished := True, updatedAt := 2000\<rparr>]\<rparr>)"
    by code_simp
  moreover have "approveProperty 2000 admin2 ''bbbbbbbbbbbbbbbbbbbbbb01'' db0 =
     approveProperty 2000 admin1 ''bbbbbbbbbbbbbbbbbbbbbb01'' db0"
    by code_simp
  ultimately show ?thesis by blast
qed

text \<open>
  C4. Claim: rejection fails with 400 on an empty or blank reason and on an already rejected
  property; otherwise it sets \<^verbatim>\<open>approvalStatus\<close> to rejected, records \<^verbatim>\<open>approvedBy\<close>
  and \<^verbatim>\<open>approvedAt\<close>, stores \<^verbatim>\<open>rejectionReason\<close> and sets \<^verbatim>\<open>isPublished\<close> to false.

  As for approval, the schema declares none of \<^verbatim>\<open>approvedBy\<close>, \<^verbatim>\<open>approvedAt\<close> and
  \<^verbatim>\<open>rejectionReason\<close>: the stored document keeps neither the admin nor the reason, and
  rejections by different admins for different reasons leave the same store.
\<close>

theorem rejectProperty_stores_no_reason:
  "rejectProperty now user pid reason s = rejectProperty now user' pid reason s
   \<and> rejectProperty 2000 admin1 ''bbbbbbbbbbbbbbbbbbbbbb01'' (Some ''too cheap'') db0 =
     (200, db0\<lparr>properties :=
             [property0\<lparr>approvalStatus := Rejected, isPublished := False, updatedAt := 2000\<rparr>]\<rparr>)
   \<and> rejectProperty 2000 admin2 ''bbbbbbbbbbbbbbbbbbbbbb01'' (Some ''duplicate listing'') db0 =
     rejectProperty 2000 admin1 ''bbbbbbbbbbbbbbbbbbbbbb01'' (Some ''too cheap'') db0"
proof -
  have "rejectProperty now user pid reason s = rejectProperty now user' pid reason s"
    by (simp add: rejectProperty_def Property_save_def set_expando_def load_def Let_def
             split: sum.splits option.splits)
  moreover have
    "rejectProperty 2000 admin1 ''bbbbbbbbbbbbbbbbbbbbbb01'' (Some ''too cheap'') db0 =
     (200, db0\<lparr>properties :=
             [property0\<lparr>approvalStatus := Rejected, isPublished := False, updatedAt := 2000\<rparr>]\<rparr>)"
    by code_simp
  moreover have
    "rejectProperty 2000 admin2 ''bbbbbbbbbbbbbbbbbbbbbb01'' (Some ''duplicate listing'') db0 =
     rejectProperty 2000 admin1 ''bbbbbbbbbbbbbbbbbbbbbb01'' (Some ''too cheap'') db0"
    by code_simp
  ultimately show ?thesis by blast
qed

text \<open>
  C5. Whatever the submitted form holds (its text fields are strings), \<^verbatim>\<open>approvalStatus\<close>
  and \<^verbatim>\<open>isPublished\<close> included, and whoever submits it, a property that
  \<^verbatim>\<open>createProperty\<close> stores (status 201) is appended to the collection with
  \<^verbatim>\<open>approvalStatus\<close> pending and \<^verbatim>\<open>isPublished\<close> false.
\<close>

theorem createProperty_pending:
  assumes "createProperty lib now newId user body files s = (201, s')"
  shows "\<exists>p. properties s' = properties s @ [p] \<and> approvalStatus p = Pending
             \<and> isPublished p = False"
proof -
  from assms obtain pd where pd: "propertyData_of lib user body files s = Inr pd"
    and cr: "Property_create lib now newId pd s = Inr s'"
    by (auto simp: createProperty_def split: sum.splits error.splits)
  from cr obtain p where p: "cast_property lib now newId pd = Some p"
    and s': "s' = s\<lparr>properties := properties s @ [p]\<rparr>"
    by (auto simp: Property_create_def split: option.splits if_splits)
  from cast_property_system[OF p] obtain own agt vws ftr where
    "cast_system lib pd = Some (own, agt, vws, ftr, isPublished p, approvalStatus p)" by blast
  with propertyData_of_forced[OF pd] have "approvalStatus p = Pending \<and> isPublished p = False"
    using cast_system_forced by blast
  with s' show ?thesis by simp
qed

theorem createProperty_pending_witness:
  "demo_form ''approvalStatus'' = Some ''approved'' \<and> demo_form ''isPublished'' = Some ''true''
   \<and> createProperty demo_lib 3000 ''bbbbbbbbbbbbbbbbbbbbbb02'' asha_session demo_form None db0
     = (201, db0\<lparr>properties := [property0, submitted]\<rparr>)
   \<and> approvalStatus submitted = Pending \<and> isPublished submitted = False"
proof -
  have f: "demo_form ''approvalStatus'' = Some ''approved''
           \<and> demo_form ''isPublished'' = Some ''true''"
    by code_simp
  have h: "createProperty demo_lib 3000 ''bbbbbbbbbbbbbbbbbbbbbb02'' asha_session demo_form None
             db0 = (201, db0\<lparr>properties := [property0, submitted]\<rparr>)"
    by code_simp
  from createProperty_pending[OF h] obtain p where
    "properties (db0\<lparr>properties := [property0, submitted]\<rparr>) = properties db0 @ [p]"
    "approvalStatus p = Pending" "isPublished p = False"
    by blast
  moreover have "properties db0 = [property0]" by (simp add: db0_def)
  ultimately have "approvalStatus submitted = Pending \<and> isPublished submitted = False"
    by simp
  with f h show ?thesis by blast
qed

text \<open>
  C6. A second \<^verbatim>\<open>addAgentReview\<close> by the same user for the same agent, after a first one
  that succeeded, fails with 400 and leaves the store as the first call left it, so the
  agent's reviews have grown by exactly one over both calls. The user's id is the
  canonical id string that the guard attaches to the request.
\<close>

theorem addAgentReview_once:
  assumes oid: "is_oid (user_id req_user)"
      and first: "addAgentReview now newId req_user aid body s = (201, s1)"
  shows "addAgentReview now' newId' req_user aid body' s1 = (400, s1)
         \<and> (\<exists>a a1. Agent_findById aid s = Inr (Some a) \<and> Agent_findById aid s1 = Inr (Some a1)
                    \<and> length (reviews a1) = length (reviews a) + 1)"
proof -
  from first obtain i where i: "castObjectId aid = Some i"
    by (auto simp: addAgentReview_def Agent_findById_def split: option.splits)
  from first i obtain a where a: "find (\<lambda>q. a_id q = i) (agents s) = Some a"
    by (auto simp: addAgentReview_def Agent_findById_def split: option.splits)
  have u: "castObjectId (user_id req_user) = Some (user_id req_user)"
    using oid by (rule is_oid_cast)
  from first i a u obtain r where r: "body_rating body = Some r"
    and fresh: "find (\<lambda>review. r_user review = user_id req_user) (reviews a) = None"
    by (auto simp: addAgentReview_def Agent_findById_def split: option.splits)
  define rv where "rv = \<lparr>r_id = newId, r_user = user_id req_user, rating = r,
                         comment = body_comment body, r_createdAt = now\<rparr>"
  define a' where "a' = a\<lparr>reviews := reviews a @ [rv]\<rparr>"
  from first i a u r fresh have sv: "Agent_save a' s = Inr s1"
    by (auto simp: addAgentReview_def Agent_findById_def Let_def a'_def rv_def
             split: option.splits sum.splits)
  have ida: "a_id a = i" using find_Some_ex[OF a] by simp
  have ex: "list_ex (\<lambda>q. a_id q = a_id a') (agents s)"
    using find_Some_ex[OF a] by (simp add: a'_def)
  from sv ex ida have s1:
    "s1 = s\<lparr>agents := map (\<lambda>q. if a_id q = i then calculateAverageRating a' else q) (agents s)\<rparr>"
    by (auto simp: Agent_save_def Let_def a'_def split: if_splits)
  have f1: "find (\<lambda>q. a_id q = i) (agents s1) = Some (calculateAverageRating a')"
    unfolding s1 using find_replace[OF a, of "calculateAverageRating a'"] ida
    by (simp add: a_id_calculateAverageRating a'_def)
  have dup: "find (\<lambda>review. r_user review = user_id req_user)
               (reviews (calculateAverageRating a')) = Some rv"
    using find_append_last[OF fresh, of rv]
    by (simp add: reviews_calculateAverageRating a'_def rv_def)
  have second: "addAgentReview now' newId' req_user aid body' s1 = (400, s1)"
    using i f1 dup by (simp add: addAgentReview_def Agent_findById_def)
  have "Agent_findById aid s = Inr (Some a)" using i a by (simp add: Agent_findById_def)
  moreover have "Agent_findById aid s1 = Inr (Some (calculateAverageRating a'))"
    using i f1 by (simp add: Agent_findById_def)
  moreover have "length (reviews (calculateAverageRating a')) = length (reviews a) + 1"
    by (simp add: reviews_calculateAverageRating a'_def)
  ultimately show ?thesis using second by blast
qed

theorem addAgentReview_once_witness:
  "is_oid (user_id visitor)
   \<and> addAgentReview 3000 ''ffffffffffffffffffffff01'' visitor ''dddddddddddddddddddddd01''
        \<lparr>body_rating = Some 4, body_comment = Some ''helpful''\<rparr> db0
     = (201, db0\<lparr>agents :=
               [asha_agent\<lparr>ratings := \<lparr>average = 4, count = 1\<rparr>,
                           reviews := [\<lparr>r_id = ''ffffffffffffffffffffff01'',
                                        r_user = ''cccccccccccccccccccccc02'', rating = 4,
                                        comment = Some ''helpful'', r_createdAt = 3000\<rparr>]\<rparr>]\<rparr>)
   \<and> addAgentReview 4000 ''ffffffffffffffffffffff02'' visitor ''dddddddddddddddddddddd01''
        \<lparr>body_rating = Some 5, body_comment = None\<rparr>
        (db0\<lparr>agents :=
               [asha_agent\<lparr>ratings := \<lparr>average = 4, count = 1\<rparr>,
                           reviews := [\<lparr>r_id = ''ffffffffffffffffffffff01'',
                                        r_user = ''cccccccccccccccccccccc02'', rating = 4,
                                        comment = Some ''helpful'', r_createdAt = 3000\<rparr>]\<rparr>]\<rparr>)
     = (400, db0\<lparr>agents :=
               [asha_agent\<lparr>ratings := \<lparr>average = 4, count = 1\<rparr>,
                           reviews := [\<lparr>r_id = ''ffffffffffffffffffffff01'',
                                        r_user = ''cccccccccccccccccccccc02'', rating = 4,
                                        comment = Some ''helpful'', r_createdAt = 3000\<rparr>]\<rparr>]\<rparr>)"
proof -
  have h1: "is_oid (user_id visitor)" by code_simp
  have h2: "addAgentReview 3000 ''ffffffffffffffffffffff01'' visitor ''dddddddddddddddddddddd01''
        \<lparr>body_rating = Some 4, body_comment = Some ''helpful''\<rparr> db0
     = (201, db0\<lparr>agents :=
               [asha_agent\<lparr>ratings := \<lparr>average = 4, count = 1\<rparr>,
                           reviews := [\<lparr>r_id = ''ffffffffffffffffffffff01'',
                                        r_user = ''cccccccccccccccccccccc02'', rating = 4,
                                        comment = Some ''helpful'', r_createdAt = 3000\<rparr>]\<rparr>]\<rparr>)"
    by code_simp
  from addAgentReview_once[OF h1 h2, of 4000 "''ffffffffffffffffffffff02''"
         "\<lparr>body_rating = Some 5, body_comment = None\<rparr>"]
  show ?thesis using h1 h2 by blast
qed

text \<open>
  C7. Claim: registration fails with a conflict whenever an existing account matches the
  given email or the given mobile number, also when both are given and only one matches.

  With an email in the request the handler looks for an account by email only (the
  mobile lookup is the \<^verbatim>\<open>else\<close> branch). A request with a new email and the mobile number
  of an existing account passes the check and reaches \<^verbatim>\<open>User.create\<close>: whatever that
  does, the answer is not the 400 of the conflict.
\<close>

theorem register_misses_mobile_conflict:
  "User_findOne_phone ''9999999999'' db0 = Some asha
   \<and> fst (register User_create newId
         \<lparr>reg_name = Some ''Ravi'', reg_email = Some ''ravi@mail.com'',
          reg_mobile = Some ''9999999999'', reg_password = Some ''secret1'', reg_role = None\<rparr>
         db0) \<noteq> 400"
proof -
  have e: "rx_test emailRegex ''ravi@mail.com''" by code_simp
  have m: "rx_test mobileRegex ''9999999999''" by code_simp
  have f: "User_findOne_email ''ravi@mail.com'' db0 = None" by code_simp
  have p: "User_findOne_phone ''9999999999'' db0 = Some asha" by code_simp
  show ?thesis
    using e m f p by (simp add: register_def Let_def split: sum.splits)
qed

text \<open>
  C8. Claim: a search with an empty query fails with 400; a search with a non-empty query
  returns published properties only, by relevance.

  The route declares that \<^verbatim>\<open>q\<close> must not be empty, but nothing reads the validation
  result, and the handler has no 400 response at all: whatever the query, empty or
  absent included, it answers 200 or 500.
\<close>

theorem searchProperties_never_400:
  "fst (searchProperties eng query s) \<noteq> 400
   \<and> fst (searchProperties eng \<lparr>sq_q = Some [], sq_page = None, sq_limit = None\<rparr> s)
       \<in> {200, 500}"
  by (simp add: searchProperties_def Let_def skip_limit_def parseInt_or_def
           split: option.splits sum.splits)

text \<open>
  C9. Claim: every admin path that deletes a user also deletes the linked Agent profile.

  \<^verbatim>\<open>DELETE /api/users/:id\<close> does; \<^verbatim>\<open>DELETE /api/admin/users/:id\<close> deletes the user
  and leaves the agent profile behind.
\<close>

theorem admin_deleteUser_keeps_agent:
  "agents (snd (admin_deleteUser req_user param_id s)) = agents s
   \<and> admin_deleteUser admin1 ''cccccccccccccccccccccc01'' db0 =
     (200, db0\<lparr>users := [admin_account]\<rparr>)
   \<and> agents (snd (admin_deleteUser admin1 ''cccccccccccccccccccccc01'' db0)) = [asha_agent]
   \<and> a_user asha_agent = u_id asha
   \<and> deleteUser admin1 ''cccccccccccccccccccccc01'' db0 =
     (200, db0\<lparr>users := [admin_account], agents := []\<rparr>)"
proof -
  have "agents (snd (admin_deleteUser req_user param_id s)) = agents s"
    by (simp add: admin_deleteUser_def User_findByIdAndDelete_def
             split: sum.splits option.splits)
  moreover have
    "admin_deleteUser admin1 ''cccccccccccccccccccccc01'' db0 =
       (200, db0\<lparr>users := [admin_account]\<rparr>)
     \<and> agents (snd (admin_deleteUser admin1 ''cccccccccccccccccccccc01'' db0)) = [asha_agent]
     \<and> a_user asha_agent = u_id asha
     \<and> deleteUser admin1 ''cccccccccccccccccccccc01'' db0 =
       (200, db0\<lparr>users := [admin_account], agents := []\<rparr>)"
    by code_simp
  ultimately show ?thesis by blast
qed

text \<open>
  C10. Claim: an admin acting on their own account gets 400 from both \<^verbatim>\<open>deleteUser\<close>
  handlers and from \<^verbatim>\<open>updateUserRole\<close>, and nothing changes.

  The admin controller compares the stored \<^verbatim>\<open>_id\<close> with the admin's id. The users
  controller compares the path parameter as a string, before it is cast to an ObjectId:
  the admin's own id written in upper case is a different string and the same ObjectId,
  so the guard is passed and the admin's account is deleted, or its role changed.
\<close>

theorem users_controller_self_guard_bypassed:
  "deleteUser admin1 ''AAAAAAAAAAAAAAAAAAAAAA01'' db0 = (200, db0\<lparr>users := [asha]\<rparr>)
   \<and> updateUserRole ''eeeeeeeeeeeeeeeeeeeeee01'' admin1 ''AAAAAAAAAAAAAAAAAAAAAA01''
        (Some ''user'') db0
     = (200, db0\<lparr>users := [admin_account\<lparr>role := ''user''\<rparr>, asha]\<rparr>)
   \<and> u_id admin_account = user_id admin1
   \<and> admin_deleteUser admin1 ''AAAAAAAAAAAAAAAAAAAAAA01'' db0 = (400, db0)"
  by code_simp

end
